theory Spec2Isabelle
  imports Complex_Main
begin

section \<open>JavaScript values\<close>

text \<open>
  The values that \<^verbatim>\<open>view.js\<close> passes around as navigation targets and history
  entries: \<^verbatim>\<open>undefined\<close>, numbers, strings, and plain objects. Of an object the
  program reads only the properties \<^verbatim>\<open>index\<close> and \<^verbatim>\<open>fraction\<close>; an object is
  compared by reference, which the model keeps as the identity \<open>ident\<close>.
  JavaScript numbers are IEEE 754 doubles. Split detection, whose outcome hangs on
  comparisons with thresholds, rounds every arithmetic result as the machine does
  (see below); everywhere else numbers are taken as exact reals. Infinities and NaN
  are outside the model.
\<close>

datatype jsval =
    Undefined
  | Number real
  | String string
  | Object (ident: nat) (obj_index: "real option") (obj_fraction: "real option")

datatype exn = TypeError | RangeError | Rejection

text \<open>\<^verbatim>\<open>a === b\<close>\<close>

fun strict_eq :: "jsval \<Rightarrow> jsval \<Rightarrow> bool" where
  "strict_eq Undefined Undefined = True"
| "strict_eq (Number a) (Number b) = (a = b)"
| "strict_eq (String a) (String b) = (a = b)"
| "strict_eq (Object i _ _) (Object j _ _) = (i = j)"
| "strict_eq _ _ = False"

text \<open>Truthiness, as \<^verbatim>\<open>&&\<close>, \<^verbatim>\<open>!\<close> and \<^verbatim>\<open>find\<close> read a value.\<close>

fun truthy :: "jsval \<Rightarrow> bool" where
  "truthy Undefined = False"
| "truthy (Number r) = (r \<noteq> 0)"
| "truthy (String s) = (s \<noteq> [])"
| "truthy (Object _ _ _) = True"

definition of_field :: "real option \<Rightarrow> jsval" where
  "of_field f = (case f of None \<Rightarrow> Undefined | Some r \<Rightarrow> Number r)"

text \<open>\<^verbatim>\<open>v.fraction\<close>: a TypeError on \<^verbatim>\<open>undefined\<close>, \<^verbatim>\<open>undefined\<close> on a primitive.\<close>

fun get_fraction :: "jsval \<Rightarrow> exn + jsval" where
  "get_fraction Undefined = Inl TypeError"
| "get_fraction (Number _) = Inr Undefined"
| "get_fraction (String _) = Inr Undefined"
| "get_fraction (Object _ _ f) = Inr (of_field f)"

text \<open>\<^verbatim>\<open>v?.fraction\<close>\<close>

definition opt_fraction :: "jsval \<Rightarrow> jsval" where
  "opt_fraction v = (case get_fraction v of Inl _ \<Rightarrow> Undefined | Inr f \<Rightarrow> f)"

section \<open>Rounded arithmetic\<close>

text \<open>
  A double is a real of the form \<open>m * 2 ^ t\<close> with \<open>\<bar>m\<bar> < 2 ^ 53\<close> and \<open>- 1074 \<le> t\<close>.
  \<open>fl x\<close> is the double nearest to \<open>x\<close>, the one with the even \<open>m\<close> when two are
  equally near: \<open>ulp_exp x\<close> is the exponent \<open>t\<close> of the doubles around \<open>x\<close>, and
  \<open>round_even\<close> picks \<open>m\<close>. A result whose magnitude reaches \<open>2 ^ 1024\<close> is infinite
  in JavaScript and is not modelled. \<^verbatim>\<open>a + b\<close>, \<^verbatim>\<open>a - b\<close>, \<^verbatim>\<open>a * b\<close> and \<^verbatim>\<open>a / b\<close>
  on doubles are the exact result rounded; \<^verbatim>\<open>Math.max\<close>, \<^verbatim>\<open>Math.min\<close> and the
  comparisons are exact. A decimal literal such as \<^verbatim>\<open>0.98\<close> denotes \<open>fl 0.98\<close>.
\<close>

definition round_even :: "real \<Rightarrow> int" where
  "round_even y =
     (let f = \<lfloor>y\<rfloor>; d = y - of_int f
      in if d < 1 / 2 then f else if d > 1 / 2 then f + 1 else if even f then f else f + 1)"

definition ulp_exp :: "real \<Rightarrow> int" where
  "ulp_exp x = max (\<lfloor>log 2 \<bar>x\<bar>\<rfloor> - 52) (- 1074)"

definition fl :: "real \<Rightarrow> real" where
  "fl x = (if x = 0 then 0
           else of_int (round_even (x / 2 powr of_int (ulp_exp x))) * 2 powr of_int (ulp_exp x))"

definition js_add :: "real \<Rightarrow> real \<Rightarrow> real" where
  "js_add a b = fl (a + b)"

definition js_sub :: "real \<Rightarrow> real \<Rightarrow> real" where
  "js_sub a b = fl (a - b)"

definition js_mul :: "real \<Rightarrow> real \<Rightarrow> real" where
  "js_mul a b = fl (a * b)"

definition js_div :: "real \<Rightarrow> real \<Rightarrow> real" where
  "js_div a b = fl (a / b)"

section \<open>History\<close>

text \<open>
  \<^verbatim>\<open>class History\<close>: the private array \<^verbatim>\<open>#arr\<close> and pointer \<^verbatim>\<open>#index\<close>. The array
  is its elements \<open>arr\<close> together with the properties under negative keys
  \<open>arr_props\<close>: \<^verbatim>\<open>replaceState\<close> on an empty history writes \<^verbatim>\<open>#arr[-1]\<close>, which
  is a property of the array object and not an element, and \<^verbatim>\<open>pushState\<close> reads
  it back. \<open>dispatched\<close> logs the events the object has dispatched.
\<close>

datatype hevent = IndexChange | PopState jsval

record history =
  arr :: "jsval list"
  arr_props :: "int \<Rightarrow> jsval"
  index :: int
  dispatched :: "hevent list"

definition new_history :: history where
  "new_history = \<lparr>arr = [], arr_props = (\<lambda>_. Undefined), index = - 1, dispatched = []\<rparr>"

text \<open>\<^verbatim>\<open>#arr[i]\<close>: \<^verbatim>\<open>undefined\<close> beyond the end.\<close>

definition arr_read :: "history \<Rightarrow> int \<Rightarrow> jsval" where
  "arr_read h i =
     (if 0 \<le> i then (if i < int (length (arr h)) then arr h ! nat i else Undefined)
      else arr_props h i)"

text \<open>\<^verbatim>\<open>#arr[i] = x\<close>: a write beyond the end extends the array, leaving holes.\<close>

definition arr_write :: "int \<Rightarrow> jsval \<Rightarrow> history \<Rightarrow> history" where
  "arr_write i x h =
     (if 0 \<le> i then
        (if i < int (length (arr h)) then h\<lparr>arr := (arr h)[nat i := x]\<rparr>
         else h\<lparr>arr := arr h @ replicate (nat i - length (arr h)) Undefined @ [x]\<rparr>)
      else h\<lparr>arr_props := (arr_props h)(i := x)\<rparr>)"

text \<open>\<^verbatim>\<open>#arr.length = n\<close> for \<open>0 \<le> n\<close>.\<close>

definition set_length :: "nat \<Rightarrow> history \<Rightarrow> history" where
  "set_length n h = h\<lparr>arr := take n (arr h) @ replicate (n - length (arr h)) Undefined\<rparr>"

definition dispatch :: "hevent \<Rightarrow> history \<Rightarrow> history" where
  "dispatch e h = h\<lparr>dispatched := dispatched h @ [e]\<rparr>"

text \<open>
  The three statements of \<^verbatim>\<open>pushState\<close> after its early return. A negative
  length raises a RangeError after the first statement has run.
\<close>

definition push_entry :: "jsval \<Rightarrow> history \<Rightarrow> exn option \<times> history" where
  "push_entry x h =
     (let i = index h + 1;
          h1 = arr_write i x (h\<lparr>index := i\<rparr>)
      in if i + 1 < 0 then (Some RangeError, h1)
         else (None, dispatch IndexChange (set_length (nat (i + 1)) h1)))"

text \<open>
  \<^verbatim>\<open>if (last === x || last?.fraction && last.fraction === x.fraction) return\<close>:
  \<^verbatim>\<open>x.fraction\<close> is read only when \<^verbatim>\<open>last?.fraction\<close> is truthy.
\<close>

definition pushState :: "jsval \<Rightarrow> history \<Rightarrow> exn option \<times> history" where
  "pushState x h =
     (let last = arr_read h (index h) in
      if strict_eq last x then (None, h)
      else if truthy (opt_fraction last) then
        (case get_fraction x of
           Inl e \<Rightarrow> (Some e, h)
         | Inr xf \<Rightarrow> if strict_eq (opt_fraction last) xf then (None, h) else push_entry x h)
      else push_entry x h)"

definition replaceState :: "jsval \<Rightarrow> history \<Rightarrow> history" where
  "replaceState x h = arr_write (index h) x h"

text \<open>\<^verbatim>\<open>back()\<close>\<close>

definition hist_back :: "history \<Rightarrow> history" where
  "hist_back h =
     (let i = index h in
      if i \<le> 0 then h
      else dispatch IndexChange (dispatch (PopState (arr_read h (i - 1))) (h\<lparr>index := i - 1\<rparr>)))"

definition forward :: "history \<Rightarrow> history" where
  "forward h =
     (let i = index h in
      if i \<ge> int (length (arr h)) - 1 then h
      else dispatch IndexChange (dispatch (PopState (arr_read h (i + 1))) (h\<lparr>index := i + 1\<rparr>)))"

definition canGoBack :: "history \<Rightarrow> bool" where
  "canGoBack h = (index h > 0)"

definition canGoForward :: "history \<Rightarrow> bool" where
  "canGoForward h = (index h < int (length (arr h)) - 1)"

definition clear :: "history \<Rightarrow> history" where
  "clear h = h\<lparr>arr := [], arr_props := (\<lambda>_. Undefined), index := - 1\<rparr>"

text \<open>The pointer is \<open>-1\<close> on an empty array, or an index of the array.\<close>

definition hist_inv :: "history \<Rightarrow> bool" where
  "hist_inv h \<longleftrightarrow>
     (index h = - 1 \<and> arr h = []) \<or> (0 \<le> index h \<and> index h < int (length (arr h)))"

section \<open>The view and its collaborators\<close>

text \<open>
  A resolved target \<^verbatim>\<open>{ index, anchor }\<close>. The anchor is a function from the live
  document, which an entry of the renderer may lack, to a range or an element;
  documents, ranges and elements are opaque handles. Calling the anchor may raise;
  in the highlight handlers an anchor that finds no element counts as raising,
  since the handler then fails on \<^verbatim>\<open>el.classList\<close>.
\<close>

type_synonym doc = nat
type_synonym range = nat
type_synonym anchor = "doc option \<Rightarrow> exn + range"

record resolved =
  r_index :: jsval
  r_anchor :: "anchor option"

text \<open>
  What the book and the modules \<^verbatim>\<open>epubcfi.js\<close> and \<^verbatim>\<open>progress.js\<close> supply. They
  are not part of \<^verbatim>\<open>view.js\<close> and are taken as parameters; each call may raise,
  and a resolver of the book may return nothing.
  \<^item> \<open>isCFI\<close>: \<^verbatim>\<open>CFI.isCFI.test\<close>, on the string form of its argument;
  \<^item> \<open>book_resolveCFI\<close>: \<^verbatim>\<open>book.resolveCFI\<close>, which a book need not have;
  \<^item> \<open>parse_cfi\<close>: the \<^verbatim>\<open>else\<close> branch of \<^verbatim>\<open>resolveCFI\<close>, built from \<^verbatim>\<open>CFI.parse\<close>,
    \<^verbatim>\<open>CFI.fake.toIndex\<close> and \<^verbatim>\<open>CFI.toRange\<close>;
  \<^item> \<open>book_resolveHref\<close>: \<^verbatim>\<open>book.resolveHref\<close>;
  \<^item> \<open>n_sections\<close>: \<^verbatim>\<open>book.sections.length\<close>.
\<close>

record env =
  isCFI :: "string \<Rightarrow> bool"
  book_resolveCFI :: "(jsval \<Rightarrow> exn + resolved option) option"
  parse_cfi :: "jsval \<Rightarrow> exn + resolved"
  book_resolveHref :: "jsval \<Rightarrow> exn + resolved option"
  n_sections :: nat

text \<open>A number is a valid section index when it is one of \<open>0, \<dots>, n_sections - 1\<close>.\<close>

definition valid_index :: "env \<Rightarrow> real \<Rightarrow> bool" where
  "valid_index e n \<longleftrightarrow> 0 \<le> n \<and> n < real (n_sections e) \<and> n = of_int \<lfloor>n\<rfloor>"

text \<open>
  Modelled from the spec: the overlay of a section, the class \<^verbatim>\<open>Overlayer\<close> of
  \<^verbatim>\<open>overlayer.js\<close>, which is not among the sources. The spec calls it a drawing
  surface keyed by opaque annotation values, whose entries are added and deleted by
  value; \<open>ov_add\<close> and \<open>ov_remove\<close> are \<^verbatim>\<open>overlayer.add\<close> and \<^verbatim>\<open>overlayer.remove\<close>.
\<close>

datatype range_arg = Applied range | Unapplied

datatype style = Outline | Custom nat

type_synonym overlayer = "string \<rightharpoonup> range_arg \<times> style"

definition ov_add :: "string \<Rightarrow> range_arg \<Rightarrow> style \<Rightarrow> overlayer \<Rightarrow> overlayer" where
  "ov_add key r st ov = ov(key \<mapsto> (r, st))"

definition ov_remove :: "string \<Rightarrow> overlayer \<Rightarrow> overlayer" where
  "ov_remove key ov = ov(key := None)"

text \<open>
  An entry of \<^verbatim>\<open>renderer.getContents()\<close>: \<^verbatim>\<open>{ index, doc, overlayer }\<close>. Every
  rendered section has an overlayer of its own, so the overlayer is kept inside its
  entry.
\<close>

record content =
  c_index :: jsval
  c_doc :: "doc option"
  c_overlayer :: "overlayer option"

datatype vevent = Relocate string | DrawAnnotation string "doc option" range_arg

text \<open>
  The fields of \<^verbatim>\<open>class View\<close> that the functions below read or write, with what
  the renderer currently shows (\<open>contents\<close>) and the events the view has emitted.
  \<^item> \<open>sectionProgress\<close>: \<^verbatim>\<open>#sectionProgress\<close>, as its \<^verbatim>\<open>getSection\<close>;
  \<^item> \<open>tocProgress\<close>, \<open>pageProgress\<close>: \<^verbatim>\<open>#tocProgress\<close> and \<^verbatim>\<open>#pageProgress\<close>, as the
    label of the item that \<^verbatim>\<open>getProgress(index)\<close> returns, if any.
  The three are \<open>None\<close> until \<^verbatim>\<open>open\<close> sets them, which it does only for a book
  with \<^verbatim>\<open>splitTOCHref\<close> and \<^verbatim>\<open>getTOCFragment\<close>, and again after \<^verbatim>\<open>close\<close>.
  \<open>searchResults\<close> is the \<^verbatim>\<open>Map\<close> \<^verbatim>\<open>#searchResults\<close> in insertion order; its keys are
  section indices, or \<^verbatim>\<open>undefined\<close> for a search of the whole book. A value is an
  array together with its identity: a running search keeps hold of the array it
  stored, also when the map has dropped it since. \<open>allocated\<close> counts the arrays made.
  \<open>mediaOverlay\<close> tells whether \<^verbatim>\<open>this.mediaOverlay\<close> refers to the media overlay.
\<close>

record view =
  sectionProgress :: "(real \<Rightarrow> exn + resolved) option"
  tocProgress :: "(jsval \<Rightarrow> string option) option"
  pageProgress :: "(jsval \<Rightarrow> string option) option"
  searchResults :: "(jsval \<times> nat \<times> string list) list"
  lastLocation :: "string option"
  history :: history
  mediaOverlay :: bool
  contents :: "content list"
  emitted :: "vevent list"
  allocated :: nat

subsection \<open>Resolving a navigation target\<close>

text \<open>The string that \<^verbatim>\<open>RegExp.test\<close> sees of a string or an object.\<close>

fun to_string :: "jsval \<Rightarrow> string" where
  "to_string (String s) = s"
| "to_string (Object _ _ _) = ''[object Object]''"
| "to_string _ = []"

definition resolveCFI :: "env \<Rightarrow> jsval \<Rightarrow> exn + resolved option" where
  "resolveCFI e cfi =
     (case book_resolveCFI e of
        Some f \<Rightarrow> f cfi
      | None \<Rightarrow> (case parse_cfi e cfi of Inl x \<Rightarrow> Inl x | Inr r \<Rightarrow> Inr (Some r)))"

text \<open>
  The \<^verbatim>\<open>try\<close> block of \<^verbatim>\<open>resolveNavigation\<close>. \<open>to_string\<close> is applied to strings
  and objects only: a number returns in the first line, and reading
  \<^verbatim>\<open>target.fraction\<close> of \<^verbatim>\<open>undefined\<close> raises.
\<close>

definition resolveNavigation_try :: "env \<Rightarrow> view \<Rightarrow> jsval \<Rightarrow> exn + resolved option" where
  "resolveNavigation_try e v target =
     (case target of
        Number n \<Rightarrow> Inr (Some \<lparr>r_index = Number n, r_anchor = None\<rparr>)
      | _ \<Rightarrow>
        (case get_fraction target of
           Inl x \<Rightarrow> Inl x
         | Inr (Number f) \<Rightarrow>
             (case sectionProgress v of
                None \<Rightarrow> Inl TypeError
              | Some getSection \<Rightarrow>
                  (case getSection f of Inl x \<Rightarrow> Inl x | Inr r \<Rightarrow> Inr (Some r)))
         | Inr _ \<Rightarrow>
             if isCFI e (to_string target) then resolveCFI e target
             else book_resolveHref e target))"

text \<open>The \<^verbatim>\<open>catch\<close>: the error is logged and the function returns \<^verbatim>\<open>undefined\<close>.\<close>

definition resolveNavigation :: "env \<Rightarrow> view \<Rightarrow> jsval \<Rightarrow> resolved option" where
  "resolveNavigation e v target =
     (case resolveNavigation_try e v target of Inl _ \<Rightarrow> None | Inr r \<Rightarrow> r)"

subsection \<open>Going to a target\<close>

text \<open>
  \<^verbatim>\<open>#onRelocate\<close>, for the events the renderer raises. \<open>rel_cfi\<close> is the result of
  \<^verbatim>\<open>getCFI(index, range)\<close>, which may raise; the listener then stops before it
  has written anything.
\<close>

record relocate =
  rel_reason :: string
  rel_cfi :: "exn + string"

definition onRelocate :: "relocate \<Rightarrow> view \<Rightarrow> view" where
  "onRelocate d v =
     (case rel_cfi d of
        Inl _ \<Rightarrow> v
      | Inr cfi \<Rightarrow>
          (let v1 = v\<lparr>lastLocation := Some cfi\<rparr>;
               v2 = (if rel_reason d = ''snap'' \<or> rel_reason d = ''page''
                        \<or> rel_reason d = ''scroll''
                     then v1\<lparr>history := replaceState (String cfi) (history v1)\<rparr> else v1)
           in v2\<lparr>emitted := emitted v2 @ [Relocate cfi]\<rparr>))"

text \<open>
  What \<^verbatim>\<open>renderer.goTo(resolved)\<close> does, as far as the view sees it: the relocations
  it raises, and whether its promise resolves (\<open>None\<close>) or the call fails, by a
  rejected promise or an exception.
\<close>

record nav_outcome =
  relocations :: "relocate list"
  failure :: "exn option"

text \<open>The \<^verbatim>\<open>try\<close> block of \<^verbatim>\<open>View.goTo\<close>; \<open>Inl\<close> is control passing to the \<^verbatim>\<open>catch\<close>.\<close>

definition goTo_try ::
  "(resolved option \<Rightarrow> nav_outcome) \<Rightarrow> jsval \<Rightarrow> resolved option \<Rightarrow> view
     \<Rightarrow> (exn + resolved option) \<times> view" where
  "goTo_try renderer_goTo target res v =
     (let out = renderer_goTo res;
          v1 = fold onRelocate (relocations out) v
      in case failure out of
           Some x \<Rightarrow> (Inl x, v1)
         | None \<Rightarrow>
             (case pushState target (history v1) of
                (Some x, h) \<Rightarrow> (Inl x, v1\<lparr>history := h\<rparr>)
              | (None, h) \<Rightarrow> (Inr res, v1\<lparr>history := h\<rparr>)))"

text \<open>
  \<^verbatim>\<open>View.goTo\<close>. The result is what the returned promise settles to: \<open>Inl\<close> a
  rejection, \<open>Inr None\<close> the value \<^verbatim>\<open>undefined\<close>.
\<close>

definition goTo ::
  "env \<Rightarrow> (resolved option \<Rightarrow> nav_outcome) \<Rightarrow> jsval \<Rightarrow> view
     \<Rightarrow> (exn + resolved option) \<times> view" where
  "goTo e renderer_goTo target v =
     (let res = resolveNavigation e v target in
      case goTo_try renderer_goTo target res v of
        (Inl _, v1) \<Rightarrow> (Inr None, v1)
      | (Inr r, v1) \<Rightarrow> (Inr r, v1))"

section \<open>Annotations and search\<close>

definition SEARCH_PREFIX :: string where
  "SEARCH_PREFIX = ''foliate-search:''"

text \<open>\<^verbatim>\<open>s.startsWith(p)\<close>\<close>

definition startsWith :: "string \<Rightarrow> string \<Rightarrow> bool" where
  "startsWith s p \<longleftrightarrow> take (length p) s = p"

text \<open>
  \<^verbatim>\<open>s.replace(p, r)\<close> for a string pattern and a replacement with no \<^verbatim>\<open>$\<close> in it:
  the first occurrence of \<open>p\<close> is replaced.
\<close>

fun replace_first :: "string \<Rightarrow> string \<Rightarrow> string \<Rightarrow> string" where
  "replace_first p r [] = (if p = [] then r else [])"
| "replace_first p r (c # cs) =
     (if startsWith (c # cs) p then r @ drop (length p) (c # cs)
      else c # replace_first p r cs)"

text \<open>\<^verbatim>\<open>Array.prototype.find\<close>, as the position of the element found.\<close>

fun find_pos :: "('a \<Rightarrow> bool) \<Rightarrow> 'a list \<Rightarrow> nat option" where
  "find_pos P [] = None"
| "find_pos P (x # xs) = (if P x then Some 0 else map_option Suc (find_pos P xs))"

text \<open>\<^verbatim>\<open>#getOverlayer(index)\<close>: the first entry with that index and an overlayer.\<close>

definition getOverlayer :: "jsval \<Rightarrow> view \<Rightarrow> nat option" where
  "getOverlayer i v =
     find_pos (\<lambda>x. strict_eq (c_index x) i \<and> c_overlayer x \<noteq> None) (contents v)"

text \<open>A call of a method of the overlayer of the entry at position \<open>j\<close>.\<close>

definition on_overlayer :: "nat \<Rightarrow> (overlayer \<Rightarrow> overlayer) \<Rightarrow> view \<Rightarrow> view" where
  "on_overlayer j f v =
     v\<lparr>contents := (contents v)
          [j := (contents v ! j)\<lparr>c_overlayer := map_option f (c_overlayer (contents v ! j))\<rparr>]\<rparr>"

text \<open>
  \<^verbatim>\<open>doc ? anchor(doc) : anchor\<close>: calling an anchor that is \<^verbatim>\<open>undefined\<close> is a
  TypeError; without a document the anchor is passed on as it is.
\<close>

definition range_of :: "doc option \<Rightarrow> anchor option \<Rightarrow> exn + range_arg" where
  "range_of d a =
     (case d of
        None \<Rightarrow> Inr Unapplied
      | Some dc \<Rightarrow>
          (case a of
             None \<Rightarrow> Inl TypeError
           | Some f \<Rightarrow> (case f (Some dc) of Inl x \<Rightarrow> Inl x | Inr rg \<Rightarrow> Inr (Applied rg))))"

text \<open>
  \<^verbatim>\<open>View.addAnnotation(annotation, remove)\<close>, on the \<^verbatim>\<open>value\<close> of the annotation.
  \<open>shell\<close> is the listener of \<^verbatim>\<open>draw-annotation\<close>: the style with which it calls
  \<^verbatim>\<open>draw\<close>, or \<open>None\<close> when it does not draw. The result is what the promise
  settles to: \<open>Inl\<close> a rejection, \<open>Inr None\<close> the value \<^verbatim>\<open>undefined\<close>,
  \<open>Inr (Some (index, label))\<close> the object \<^verbatim>\<open>{ index, label }\<close>. Destructuring an
  unresolved target is a TypeError, and so is \<^verbatim>\<open>this.#tocProgress.getProgress\<close>
  when \<^verbatim>\<open>#tocProgress\<close> is not set.

  First the block under \<^verbatim>\<open>if (value.startsWith(SEARCH_PREFIX))\<close>.
\<close>

definition add_search_hit ::
  "env \<Rightarrow> string \<Rightarrow> bool \<Rightarrow> view \<Rightarrow> (exn + (jsval \<times> string) option) \<times> view" where
  "add_search_hit e val remove v =
     (let cfi = replace_first SEARCH_PREFIX [] val in
      case resolveNavigation e v (String cfi) of
        None \<Rightarrow> (Inl TypeError, v)
      | Some r \<Rightarrow>
          (case getOverlayer (r_index r) v of
             None \<Rightarrow> (Inr None, v)
           | Some j \<Rightarrow>
               if remove then (Inr None, on_overlayer j (ov_remove val) v)
               else
                 (case range_of (c_doc (contents v ! j)) (r_anchor r) of
                    Inl x \<Rightarrow> (Inl x, v)
                  | Inr rg \<Rightarrow> (Inr None, on_overlayer j (ov_add val rg Outline) v))))"

text \<open>
  The block under \<^verbatim>\<open>if (obj)\<close> for any other value, on the entry at position \<open>j\<close>;
  the result tells whether it raised.
\<close>

definition redraw ::
  "(string \<Rightarrow> style option) \<Rightarrow> string \<Rightarrow> bool \<Rightarrow> resolved \<Rightarrow> nat \<Rightarrow> view
     \<Rightarrow> exn option \<times> view" where
  "redraw shell val remove r j v =
     (let v1 = on_overlayer j (ov_remove val) v in
      if remove then (None, v1)
      else
        (case range_of (c_doc (contents v ! j)) (r_anchor r) of
           Inl x \<Rightarrow> (Some x, v1)
         | Inr rg \<Rightarrow>
             (let v2 = v1\<lparr>emitted := emitted v1 @
                         [DrawAnnotation val (c_doc (contents v ! j)) rg]\<rparr>
              in case shell val of
                   None \<Rightarrow> (None, v2)
                 | Some st \<Rightarrow> (None, on_overlayer j (ov_add val rg st) v2))))"

text \<open>The last two lines: \<^verbatim>\<open>label\<close> and the \<^verbatim>\<open>return\<close>.\<close>

definition labelled :: "resolved \<Rightarrow> view \<Rightarrow> (exn + (jsval \<times> string) option) \<times> view" where
  "labelled r v =
     (case tocProgress v of
        None \<Rightarrow> (Inl TypeError, v)
      | Some getProgress \<Rightarrow>
          (Inr (Some (r_index r, case getProgress (r_index r) of None \<Rightarrow> [] | Some l \<Rightarrow> l)), v))"

definition addAnnotation ::
  "env \<Rightarrow> (string \<Rightarrow> style option) \<Rightarrow> string \<Rightarrow> bool \<Rightarrow> view
     \<Rightarrow> (exn + (jsval \<times> string) option) \<times> view" where
  "addAnnotation e shell val remove v =
     (if startsWith val SEARCH_PREFIX then add_search_hit e val remove v
      else
        (case resolveNavigation e v (String val) of
           None \<Rightarrow> (Inl TypeError, v)
         | Some r \<Rightarrow>
             (case getOverlayer (r_index r) v of
                None \<Rightarrow> labelled r v
              | Some j \<Rightarrow>
                  (case redraw shell val remove r j v of
                     (Some x, v3) \<Rightarrow> (Inl x, v3)
                   | (None, v3) \<Rightarrow> labelled r v3))))"

definition deleteAnnotation ::
  "env \<Rightarrow> (string \<Rightarrow> style option) \<Rightarrow> string \<Rightarrow> view
     \<Rightarrow> (exn + (jsval \<times> string) option) \<times> view" where
  "deleteAnnotation e shell val v = addAnnotation e shell val True v"

text \<open>
  \<^verbatim>\<open>clearSearch\<close>. The promises of \<^verbatim>\<open>deleteAnnotation\<close> are not awaited, so a
  rejection is dropped; the calls take effect in the order they are made.
\<close>

definition clearSearch :: "env \<Rightarrow> (string \<Rightarrow> style option) \<Rightarrow> view \<Rightarrow> view" where
  "clearSearch e shell v =
     (fold (\<lambda>item w. snd (deleteAnnotation e shell item w))
        (concat (map (\<lambda>(key, l, items). items) (searchResults v))) v)\<lparr>searchResults := []\<rparr>"

text \<open>\<^verbatim>\<open>Map.prototype.set\<close>\<close>

fun map_set :: "'k \<Rightarrow> 'v \<Rightarrow> ('k \<times> 'v) list \<Rightarrow> ('k \<times> 'v) list" where
  "map_set k x [] = [(k, x)]"
| "map_set k x ((k', y) # m) = (if k' = k then (k, x) # m else (k', y) # map_set k x m)"

text \<open>
  \<^verbatim>\<open>list.push(item)\<close> on the array with identity \<open>l\<close>. The push shows in the view
  only while the map holds that array.
\<close>

fun push_to :: "nat \<Rightarrow> 'a \<Rightarrow> ('k \<times> nat \<times> 'a list) list \<Rightarrow> ('k \<times> nat \<times> 'a list) list" where
  "push_to l x [] = []"
| "push_to l x ((k, l', xs) # m) =
     (if l' = l then (k, l', xs @ [x]) # m else (k, l', xs) # push_to l x m)"

text \<open>
  The results of the two generators. \<^verbatim>\<open>#searchSection\<close> yields \<^verbatim>\<open>{ cfi, excerpt }\<close>
  for each match; \<^verbatim>\<open>#searchBook\<close> yields \<^verbatim>\<open>{ progress }\<close> after each section that
  has \<^verbatim>\<open>createDocument\<close>, and \<^verbatim>\<open>{ index, subitems }\<close> when the section has a match.
  \<open>matches i\<close> stands for the matcher and \<^verbatim>\<open>getCFI\<close>: the addresses of the matches of
  section \<open>i\<close>, or the error raised on the way.
\<close>

datatype sresult = Hit string | Progress real | Subitems real "string list"

record matcher =
  createDocument :: "nat \<Rightarrow> bool"
  matches :: "real \<Rightarrow> exn + string list"

definition searchSection :: "matcher \<Rightarrow> real \<Rightarrow> sresult list \<times> exn option" where
  "searchSection m i =
     (case matches m i of Inl x \<Rightarrow> ([], Some x) | Inr cfis \<Rightarrow> (map Hit cfis, None))"

fun searchBook_from :: "matcher \<Rightarrow> nat \<Rightarrow> nat list \<Rightarrow> sresult list \<times> exn option" where
  "searchBook_from m n [] = ([], None)"
| "searchBook_from m n (i # is) =
     (if \<not> createDocument m i then searchBook_from m n is
      else
        (case matches m (real i) of
           Inl x \<Rightarrow> ([], Some x)
         | Inr cfis \<Rightarrow>
             (let (rs, err) = searchBook_from m n is
              in (Progress ((real i + 1) / real n)
                    # (if cfis \<noteq> [] then [Subitems (real i) cfis] else []) @ rs, err))))"

definition searchBook :: "env \<Rightarrow> matcher \<Rightarrow> sresult list \<times> exn option" where
  "searchBook e m = searchBook_from m (n_sections e) [0..<n_sections e]"

datatype syield = Labelled string "string list" | Plain sresult | Done

text \<open>
  \<^verbatim>\<open>View.search(opts)\<close> is an async generator. It runs nothing before the first
  pull, and when pulled it runs up to the next \<^verbatim>\<open>yield\<close>; on the way it is
  suspended at \<^verbatim>\<open>await import('./search.js')\<close> and, in the iterator it draws
  from, at every \<^verbatim>\<open>await createDocument()\<close>. While it is suspended other calls on the
  view may run. The stretches between these points are:
  \<^item> \<open>search_begin\<close>, up to \<^verbatim>\<open>await import\<close>: the call of \<^verbatim>\<open>clearSearch\<close>;
  \<^item> \<open>search_register\<close>, from there to the first \<^verbatim>\<open>await\<close> of the iterator: the new
    array \<^verbatim>\<open>list\<close> is stored under \<^verbatim>\<open>opts.index\<close>; the result names the array;
  \<^item> \<open>search_step\<close>, for each result of the iterator, up to the \<^verbatim>\<open>yield\<close> that hands
    it on. The promises of \<^verbatim>\<open>addAnnotation\<close> are not awaited.
\<close>

definition search_begin :: "env \<Rightarrow> (string \<Rightarrow> style option) \<Rightarrow> view \<Rightarrow> view" where
  "search_begin e shell v = clearSearch e shell v"

definition search_register :: "real option \<Rightarrow> view \<Rightarrow> nat \<times> view" where
  "search_register idx v =
     (allocated v,
      v\<lparr>searchResults := map_set (of_field idx) (allocated v, []) (searchResults v),
        allocated := allocated v + 1\<rparr>)"

fun search_step ::
  "env \<Rightarrow> (string \<Rightarrow> style option) \<Rightarrow> nat \<Rightarrow> sresult \<Rightarrow> view \<Rightarrow> (exn + syield) \<times> view" where
  "search_step e shell l (Subitems i cfis) v =
     (let list = map (\<lambda>cfi. SEARCH_PREFIX @ cfi) cfis;
          v1 = v\<lparr>searchResults := map_set (Number i) (allocated v, list) (searchResults v),
                 allocated := allocated v + 1\<rparr>;
          v2 = fold (\<lambda>item w. snd (addAnnotation e shell item False w)) list v1
      in case tocProgress v2 of
           None \<Rightarrow> (Inl TypeError, v2)
         | Some getProgress \<Rightarrow>
             (Inr (Labelled (case getProgress (Number i) of None \<Rightarrow> [] | Some t \<Rightarrow> t) cfis), v2))"
| "search_step e shell l (Hit cfi) v =
     (if cfi \<noteq> [] then
        (let item = SEARCH_PREFIX @ cfi;
             v1 = v\<lparr>searchResults := push_to l item (searchResults v)\<rparr>
         in (Inr (Plain (Hit cfi)), snd (addAnnotation e shell item False v1)))
      else (Inr (Plain (Hit cfi)), v))"
| "search_step e shell l (Progress p) v = (Inr (Plain (Progress p)), v)"

text \<open>The steps for a list of results, one after the other, until one raises.\<close>

fun search_loop ::
  "env \<Rightarrow> (string \<Rightarrow> style option) \<Rightarrow> nat \<Rightarrow> sresult list \<Rightarrow> view
     \<Rightarrow> syield list \<times> exn option \<times> view" where
  "search_loop e shell l [] v = ([], None, v)"
| "search_loop e shell l (r # rs) v =
     (case search_step e shell l r v of
        (Inl x, v1) \<Rightarrow> ([], Some x, v1)
      | (Inr y, v1) \<Rightarrow>
          (case search_loop e shell l rs v1 of (ys, err, v2) \<Rightarrow> (y # ys, err, v2)))"

text \<open>
  A search pulled \<open>pulls\<close> times while nothing else runs on the view at the points
  where it is suspended. \<open>idx\<close> is \<^verbatim>\<open>opts.index\<close>. The result is what was yielded, the
  error that ended the generator if one did, and the view.
\<close>

definition search ::
  "env \<Rightarrow> matcher \<Rightarrow> (string \<Rightarrow> style option) \<Rightarrow> real option \<Rightarrow> nat \<Rightarrow> view
     \<Rightarrow> syield list \<times> exn option \<times> view" where
  "search e m shell idx pulls v =
     (if pulls = 0 then ([], None, v)
      else
        (let (results, err) =
               (case idx of Some i \<Rightarrow> searchSection m i | None \<Rightarrow> searchBook e m);
             (l, v2) = search_register idx (search_begin e shell v)
         in case search_loop e shell l (take pulls results) v2 of
              (ys, Some x, v3) \<Rightarrow> (ys, Some x, v3)
            | (ys, None, v3) \<Rightarrow>
                if pulls \<le> length results then (ys, None, v3)
                else (case err of Some x \<Rightarrow> (ys, Some x, v3) | None \<Rightarrow> (ys @ [Done], None, v3))))"

section \<open>Media overlay\<close>

subsection \<open>Split detection\<close>

text \<open>
  A \<^verbatim>\<open>DOMRect\<close>, with the six properties that \<^verbatim>\<open>getElementSplitInfo\<close> reads, and
  the object \<^verbatim>\<open>viewportRect\<close> that it builds.
\<close>

record rect =
  rect_left :: real
  rect_right :: real
  rect_top :: real
  rect_bottom :: real
  rect_width :: real
  rect_height :: real

record viewport =
  vp_left :: real
  vp_right :: real
  vp_top :: real
  vp_bottom :: real

text \<open>
  The arguments of \<^verbatim>\<open>getElementSplitInfo\<close>, as far as it looks at them.
  Of the renderer: \<^verbatim>\<open>scrolled\<close>, the result of \<^verbatim>\<open>getBoundingClientRect?.()\<close> and of
  \<^verbatim>\<open>getAttribute?.('dir')\<close>. Of \<^verbatim>\<open>doc.defaultView\<close>: the bounding rectangle of its
  \<^verbatim>\<open>frameElement\<close>, \<open>None\<close> when it has no frame element, and the writing mode of
  the body, \<^verbatim>\<open>''\<close> when there is none.
\<close>

record renderer_geom =
  scrolled :: bool
  rendererRect :: "rect option"
  dir_attr :: "string option"

record doc_view =
  frameRect :: "rect option"
  writingMode :: string

record areas =
  totalArea :: real
  visibleArea :: real
  forwardArea :: real
  backwardArea :: real

record split_info =
  visibleRatio :: real
  offScreenRatio :: real

definition viewportRect :: "rect \<Rightarrow> rect \<Rightarrow> viewport" where
  "viewportRect rr fr =
     \<lparr>vp_left = max (rect_left rr) (rect_left fr),
      vp_right = min (rect_right rr) (rect_right fr),
      vp_top = max (rect_top rr) (rect_top fr),
      vp_bottom = min (rect_bottom rr) (rect_bottom fr)\<rparr>"

text \<open>
  The constants that the loop \<^verbatim>\<open>for (const rect of rects)\<close> computes for a
  rectangle: its corners in the coordinates of the renderer, its overlap with the
  viewport, and the widths hidden before and after the viewport.
\<close>

definition globalLeft :: "rect \<Rightarrow> rect \<Rightarrow> real" where
  "globalLeft fr r = js_add (rect_left fr) (rect_left r)"

definition globalRight :: "rect \<Rightarrow> rect \<Rightarrow> real" where
  "globalRight fr r = js_add (rect_left fr) (rect_right r)"

definition globalTop :: "rect \<Rightarrow> rect \<Rightarrow> real" where
  "globalTop fr r = js_add (rect_top fr) (rect_top r)"

definition globalBottom :: "rect \<Rightarrow> rect \<Rightarrow> real" where
  "globalBottom fr r = js_add (rect_top fr) (rect_bottom r)"

definition overlapWidth :: "rect \<Rightarrow> viewport \<Rightarrow> rect \<Rightarrow> real" where
  "overlapWidth fr vp r =
     (let overlapLeft = max (globalLeft fr r) (vp_left vp);
          overlapRight = min (globalRight fr r) (vp_right vp)
      in max 0 (js_sub overlapRight overlapLeft))"

definition overlapHeight :: "rect \<Rightarrow> viewport \<Rightarrow> rect \<Rightarrow> real" where
  "overlapHeight fr vp r =
     (let overlapTop = max (globalTop fr r) (vp_top vp);
          overlapBottom = min (globalBottom fr r) (vp_bottom vp)
      in max 0 (js_sub overlapBottom overlapTop))"

definition verticalOverlap :: "rect \<Rightarrow> viewport \<Rightarrow> rect \<Rightarrow> real" where
  "verticalOverlap fr vp r =
     max 0 (js_sub (min (globalBottom fr r) (vp_bottom vp)) (max (globalTop fr r) (vp_top vp)))"

definition forwardHiddenWidth :: "bool \<Rightarrow> rect \<Rightarrow> viewport \<Rightarrow> rect \<Rightarrow> real" where
  "forwardHiddenWidth rtl fr vp r =
     (if rtl then max 0 (min (rect_width r) (js_sub (vp_left vp) (globalLeft fr r)))
      else max 0 (min (rect_width r) (js_sub (globalRight fr r) (vp_right vp))))"

definition backwardHiddenWidth :: "bool \<Rightarrow> rect \<Rightarrow> viewport \<Rightarrow> rect \<Rightarrow> real" where
  "backwardHiddenWidth rtl fr vp r =
     (if rtl then max 0 (min (rect_width r) (js_sub (globalRight fr r) (vp_right vp)))
      else max 0 (min (rect_width r) (js_sub (vp_left vp) (globalLeft fr r))))"

text \<open>The body of the loop, on the four sums.\<close>

definition add_rect :: "bool \<Rightarrow> rect \<Rightarrow> viewport \<Rightarrow> rect \<Rightarrow> areas \<Rightarrow> areas" where
  "add_rect rtl fr vp r a =
     (let area = js_mul (rect_width r) (rect_height r) in
      if area = 0 then a
      else
        (let a1 = a\<lparr>totalArea := js_add (totalArea a) area\<rparr>;
             a2 = (if overlapWidth fr vp r > 0 \<and> overlapHeight fr vp r > 0
                   then a1\<lparr>visibleArea :=
                             js_add (visibleArea a1)
                               (js_mul (overlapWidth fr vp r) (overlapHeight fr vp r))\<rparr>
                   else a1)
         in if verticalOverlap fr vp r \<le> 0 then a2
            else
              (let a3 = (if forwardHiddenWidth rtl fr vp r > 0
                         then a2\<lparr>forwardArea := js_add (forwardArea a2)
                                   (js_mul (forwardHiddenWidth rtl fr vp r)
                                      (verticalOverlap fr vp r))\<rparr>
                         else a2)
               in if backwardHiddenWidth rtl fr vp r > 0
                  then a3\<lparr>backwardArea := js_add (backwardArea a3)
                            (js_mul (backwardHiddenWidth rtl fr vp r)
                               (verticalOverlap fr vp r))\<rparr>
                  else a3)))"

definition measure_areas :: "bool \<Rightarrow> rect \<Rightarrow> viewport \<Rightarrow> rect list \<Rightarrow> areas" where
  "measure_areas rtl fr vp rects =
     fold (add_rect rtl fr vp) rects
       \<lparr>totalArea = 0, visibleArea = 0, forwardArea = 0, backwardArea = 0\<rparr>"

text \<open>The end of \<^verbatim>\<open>getElementSplitInfo\<close>, from \<^verbatim>\<open>if (!totalArea || !visibleArea)\<close> on.\<close>

definition split_decision :: "bool \<Rightarrow> areas \<Rightarrow> split_info option" where
  "split_decision rtl a =
     (if totalArea a = 0 \<or> visibleArea a = 0 then None
      else
        (let visibleRatio = js_div (visibleArea a) (totalArea a);
             forwardRatio = js_div (forwardArea a) (totalArea a);
             backwardRatio = js_div (backwardArea a) (totalArea a)
         in if visibleRatio \<ge> fl 0.98 then None
            else
              (let progressionRatio = (if rtl then backwardRatio else forwardRatio);
                   oppositeRatio = (if rtl then forwardRatio else backwardRatio)
               in if progressionRatio < fl 0.1 then None
                  else if progressionRatio \<le> oppositeRatio then None
                  else Some \<lparr>visibleRatio = visibleRatio,
                             offScreenRatio = progressionRatio\<rparr>)))"

text \<open>
  \<^verbatim>\<open>getElementSplitInfo(el, doc, renderer)\<close>. \<open>el\<close> is the result of
  \<^verbatim>\<open>el.getClientRects()\<close>, \<open>None\<close> for no element; \<open>dv\<close> is \<^verbatim>\<open>doc?.defaultView\<close>.
\<close>

definition getElementSplitInfo ::
  "rect list option \<Rightarrow> doc_view option \<Rightarrow> renderer_geom option \<Rightarrow> split_info option" where
  "getElementSplitInfo el dv renderer =
     (case (el, dv, renderer) of
        (Some client_rects, Some defaultView, Some rn) \<Rightarrow>
          if scrolled rn then None
          else
            (let rects = filter (\<lambda>r. rect_width r > 0 \<and> rect_height r > 0) client_rects
             in if rects = [] then None
                else
                  (case (frameRect defaultView, rendererRect rn) of
                     (Some fr, Some rr) \<Rightarrow>
                       if rect_width rr = 0 \<or> rect_height rr = 0 then None
                       else
                         (let vp = viewportRect rr fr
                          in if vp_left vp \<ge> vp_right vp \<or> vp_top vp \<ge> vp_bottom vp then None
                             else if startsWith (writingMode defaultView) ''vertical'' then None
                             else
                               (let rtl = (dir_attr rn = Some ''rtl'')
                                in split_decision rtl (measure_areas rtl fr vp rects)))
                   | _ \<Rightarrow> None))
      | _ \<Rightarrow> None)"

subsection \<open>The highlight handlers\<close>

text \<open>
  A narrated item: \<^verbatim>\<open>begin\<close> and \<^verbatim>\<open>end\<close>, either of which may be missing
  (\<^verbatim>\<open>currentItem.begin ?? 0\<close>).
\<close>

record item =
  item_begin :: "real option"
  item_end :: "real option"

definition earlyOffset :: real where
  "earlyOffset = 1.0"

definition duration :: "item \<Rightarrow> real" where
  "duration it =
     (case item_end it of None \<Rightarrow> 0 | Some x \<Rightarrow> x)
       - (case item_begin it of None \<Rightarrow> 0 | Some x \<Rightarrow> x)"

definition flipTime :: "item \<Rightarrow> split_info \<Rightarrow> real" where
  "flipTime it si =
     max (case item_begin it of None \<Rightarrow> 0 | Some x \<Rightarrow> x)
         ((case item_begin it of None \<Rightarrow> 0 | Some x \<Rightarrow> x)
            + duration it * visibleRatio si - earlyOffset)"

text \<open>
  The closure \<^verbatim>\<open>pageFlipTimeupdateHandler\<close>: the flip time it has captured, and an
  identity, since \<^verbatim>\<open>removeEventListener\<close> removes the very function it is given.
\<close>

record handler =
  h_id :: nat
  h_flipTime :: real

text \<open>
  The audio element with its \<^verbatim>\<open>timeupdate\<close> listeners, and the media overlay that
  \<^verbatim>\<open>book.getMediaOverlay()\<close> returned. Both live on when the view drops its
  reference to them.
\<close>

record audio =
  listeners :: "handler list"
  currentTime :: real

record player =
  audio :: "audio option"
  activeItem :: "item option"
  autoScroll :: bool

text \<open>
  What the handlers that \<^verbatim>\<open>open\<close> installs work on: the view, the media overlay,
  the variables \<^verbatim>\<open>pageFlipTimeupdateHandler\<close> and \<^verbatim>\<open>lastActive\<close> of the enclosing
  scope, the elements that carry the active class, and of the renderer \<^verbatim>\<open>atEnd\<close>
  and the number of calls of \<^verbatim>\<open>next\<close>. The class that is set on the document
  element during playback is left out. \<open>fresh\<close> numbers the closures.
\<close>

record sync =
  view :: view
  player :: player
  pageFlipTimeupdateHandler :: "handler option"
  lastActive :: "range option"
  active :: "range list"
  atEnd :: bool
  flips :: nat
  fresh :: nat

text \<open>The layout that the browser reports for an element and a document.\<close>

record layout =
  clientRects :: "range \<Rightarrow> rect list"
  defaultView :: "doc \<Rightarrow> doc_view option"
  renderer_box :: renderer_geom

definition remove_listener :: "handler \<Rightarrow> audio \<Rightarrow> audio" where
  "remove_listener h au = au\<lparr>listeners := filter (\<lambda>l. l \<noteq> h) (listeners au)\<rparr>"

definition add_listener :: "handler \<Rightarrow> audio \<Rightarrow> audio" where
  "add_listener h au =
     (if h \<in> set (listeners au) then au else au\<lparr>listeners := listeners au @ [h]\<rparr>)"

text \<open>
  \<^verbatim>\<open>cleanupPageFlipHandler\<close>. Reading \<^verbatim>\<open>this.mediaOverlay.audio\<close> raises when
  \<^verbatim>\<open>this.mediaOverlay\<close> is \<^verbatim>\<open>null\<close>.
\<close>

definition cleanupPageFlipHandler :: "sync \<Rightarrow> exn option \<times> sync" where
  "cleanupPageFlipHandler s =
     (case pageFlipTimeupdateHandler s of
        None \<Rightarrow> (None, s)
      | Some h \<Rightarrow>
          if \<not> mediaOverlay (view s) then (Some TypeError, s)
          else (None, s\<lparr>player := (player s)\<lparr>audio := map_option (remove_listener h) (audio (player s))\<rparr>,
                         pageFlipTimeupdateHandler := None\<rparr>))"

text \<open>
  \<^verbatim>\<open>getContents().find(x => x.index = resolved.index)\<close> followed by the
  destructuring \<^verbatim>\<open>const { doc } = \<dots>\<close>. The predicate assigns, and its value is the
  value assigned. On an empty list the predicate is not run. The result is the
  position of the entry found. The assignment overwrites the index of every entry
  that the predicate visits; these are the entries of the list that this call of
  \<^verbatim>\<open>getContents\<close> returned, and the model does not keep them.
\<close>

definition find_assigning :: "resolved option \<Rightarrow> content list \<Rightarrow> exn + nat" where
  "find_assigning res xs =
     (if xs = [] then Inl TypeError
      else
        (case res of
           None \<Rightarrow> Inl TypeError
         | Some r \<Rightarrow>
             (case find_pos (\<lambda>x. truthy (r_index r)) xs of
                None \<Rightarrow> Inl TypeError
              | Some j \<Rightarrow> Inr j)))"

text \<open>\<^verbatim>\<open>resolved.anchor(doc)\<close>\<close>

definition call_anchor :: "resolved option \<Rightarrow> doc option \<Rightarrow> exn + range" where
  "call_anchor res d =
     (case res of
        None \<Rightarrow> Inl TypeError
      | Some r \<Rightarrow> (case r_anchor r of None \<Rightarrow> Inl TypeError | Some f \<Rightarrow> f d))"

definition highlightElement :: "resolved option \<Rightarrow> sync \<Rightarrow> exn option \<times> sync" where
  "highlightElement res s =
     (case find_assigning res (contents (view s)) of
        Inl x \<Rightarrow> (Some x, s)
      | Inr j \<Rightarrow>
          (case call_anchor res (c_doc (contents (view s) ! j)) of
             Inl x \<Rightarrow> (Some x, s)
           | Inr el \<Rightarrow> (None, s\<lparr>active := active s @ [el], lastActive := Some el\<rparr>)))"

text \<open>The statements under \<^verbatim>\<open>if (duration > 0.5)\<close>: the listener is armed.\<close>

definition arm :: "real \<Rightarrow> sync \<Rightarrow> sync" where
  "arm t s =
     (let h = \<lparr>h_id = fresh s, h_flipTime = t\<rparr>
      in s\<lparr>pageFlipTimeupdateHandler := Some h,
           player := (player s)\<lparr>audio := map_option (add_listener h) (audio (player s))\<rparr>,
           fresh := fresh s + 1\<rparr>)"

text \<open>
  The callback of \<^verbatim>\<open>this.renderer.goTo(resolved).then\<close>, run when the navigation has
  settled. The result tells whether the callback raised.
\<close>

definition afterNavigation :: "layout \<Rightarrow> resolved option \<Rightarrow> sync \<Rightarrow> exn option \<times> sync" where
  "afterNavigation L res s =
     (case highlightElement res s of
        (Some x, s1) \<Rightarrow> (Some x, s1)
      | (None, s1) \<Rightarrow>
          if \<not> mediaOverlay (view s1) then (Some TypeError, s1)
          else
            (case (activeItem (player s1), audio (player s1)) of
               (Some currentItem, Some _) \<Rightarrow>
                 (case find_assigning res (contents (view s1)) of
                    Inl x \<Rightarrow> (Some x, s1)
                  | Inr j \<Rightarrow>
                      (let currentDoc = c_doc (contents (view s1) ! j) in
                       case call_anchor res currentDoc of
                         Inl x \<Rightarrow> (Some x, s1)
                       | Inr currentEl \<Rightarrow>
                           (case getElementSplitInfo (Some (clientRects L currentEl))
                                   (case currentDoc of None \<Rightarrow> None | Some d \<Rightarrow> defaultView L d)
                                   (Some (renderer_box L)) of
                              None \<Rightarrow> (None, s1)
                            | Some splitInfo \<Rightarrow>
                                if atEnd s1 then (None, s1)
                                else if duration currentItem > 0.5
                                then (None, arm (flipTime currentItem splitInfo) s1)
                                else (None, s1))))
             | _ \<Rightarrow> (None, s1)))"

text \<open>
  The \<^verbatim>\<open>else\<close> branch of the handler, for \<^verbatim>\<open>autoScroll === false\<close>: whatever is
  raised is caught, and an anchor that finds no element leaves the state as it is.
\<close>

definition highlight_in_place :: "resolved option \<Rightarrow> sync \<Rightarrow> sync" where
  "highlight_in_place res s =
     (if contents (view s) = [] then s
      else
        (case res of
           None \<Rightarrow> s
         | Some r \<Rightarrow>
             (case find_pos (\<lambda>x. strict_eq (c_index x) (r_index r)) (contents (view s)) of
                None \<Rightarrow> s
              | Some j \<Rightarrow>
                  (case call_anchor res (c_doc (contents (view s) ! j)) of
                     Inl _ \<Rightarrow> s
                   | Inr el \<Rightarrow> s\<lparr>active := active s @ [el], lastActive := Some el\<rparr>))))"

text \<open>
  The listener of \<^verbatim>\<open>highlight\<close>, up to the call of \<^verbatim>\<open>renderer.goTo\<close>. \<open>Inr (Some res)\<close>
  says that the renderer was asked to go to \<open>res\<close>, and \<open>afterNavigation\<close> runs
  once that has succeeded.
\<close>

definition onHighlight ::
  "env \<Rightarrow> jsval \<Rightarrow> sync \<Rightarrow> (exn + resolved option option) \<times> sync" where
  "onHighlight e target s =
     (case cleanupPageFlipHandler s of
        (Some x, s1) \<Rightarrow> (Inl x, s1)
      | (None, s1) \<Rightarrow>
          (let res = resolveNavigation e (view s1) target in
           if \<not> mediaOverlay (view s1) then (Inl TypeError, s1)
           else if autoScroll (player s1) then (Inr (Some res), s1)
           else (Inr None, highlight_in_place res s1)))"

text \<open>The listener of \<^verbatim>\<open>unhighlight\<close>.\<close>

definition onUnhighlight :: "sync \<Rightarrow> exn option \<times> sync" where
  "onUnhighlight s =
     (case cleanupPageFlipHandler s of
        (Some x, s1) \<Rightarrow> (Some x, s1)
      | (None, s1) \<Rightarrow>
          (case lastActive s1 of
             None \<Rightarrow> (None, s1)
           | Some el \<Rightarrow> (None, s1\<lparr>active := filter (\<lambda>x. x \<noteq> el) (active s1)\<rparr>)))"

text \<open>
  The armed listener itself, called with a \<^verbatim>\<open>timeupdate\<close> event. \<^verbatim>\<open>renderer.next\<close>
  is counted; a rejection of its promise is caught and logged.
\<close>

definition run_handler :: "handler \<Rightarrow> sync \<Rightarrow> exn option \<times> sync" where
  "run_handler h s =
     (if \<not> mediaOverlay (view s) then (Some TypeError, s)
      else
        (case audio (player s) of
           None \<Rightarrow> (None, s)
         | Some au \<Rightarrow>
             if currentTime au \<ge> h_flipTime h then
               (case cleanupPageFlipHandler s of
                  (Some x, s1) \<Rightarrow> (Some x, s1)
                | (None, s1) \<Rightarrow> (None, s1\<lparr>flips := flips s1 + 1\<rparr>))
             else (None, s)))"

text \<open>
  A \<^verbatim>\<open>timeupdate\<close> event of the audio element: the listeners registered when the
  event is dispatched are called in order, except those removed meanwhile. An
  exception of a listener does not stop the dispatch; the result lists the
  listeners called, each with what it raised.
\<close>

fun dispatch_to :: "handler list \<Rightarrow> sync \<Rightarrow> (handler \<times> exn option) list \<times> sync" where
  "dispatch_to [] s = ([], s)"
| "dispatch_to (h # hs) s =
     (if (case audio (player s) of None \<Rightarrow> False | Some au \<Rightarrow> h \<in> set (listeners au)) then
        (case run_handler h s of
           (x, s1) \<Rightarrow> (case dispatch_to hs s1 of (called, s2) \<Rightarrow> ((h, x) # called, s2)))
      else dispatch_to hs s)"

definition timeupdate :: "sync \<Rightarrow> (handler \<times> exn option) list \<times> sync" where
  "timeupdate s =
     (case audio (player s) of
        None \<Rightarrow> ([], s)
      | Some au \<Rightarrow> dispatch_to (listeners au) s)"

subsection \<open>Closing the view\<close>

text \<open>
  \<^verbatim>\<open>View.close\<close>. The destroyed renderer shows nothing any more. The view has no
  access to \<^verbatim>\<open>cleanupPageFlipHandler\<close>, which is local to \<^verbatim>\<open>open\<close>.
\<close>

definition close :: "view \<Rightarrow> view" where
  "close v =
     v\<lparr>contents := [],
       sectionProgress := None,
       tocProgress := None,
       pageProgress := None,
       searchResults := [],
       lastLocation := None,
       history := clear (history v),
       mediaOverlay := False\<rparr>"

definition close_view :: "sync \<Rightarrow> sync" where
  "close_view s = s\<lparr>view := close (view s)\<rparr>"

section \<open>Notions for the overlay properties\<close>

text \<open>The entry drawn under key \<open>k\<close> in the overlayer of the entry at position \<open>j\<close>.\<close>

definition ov_at :: "view \<Rightarrow> nat \<Rightarrow> string \<Rightarrow> (range_arg \<times> style) option" where
  "ov_at v j k = (case c_overlayer (contents v ! j) of None \<Rightarrow> None | Some ov \<Rightarrow> ov k)"

text \<open>The items that a map of arrays holds, and the identities of its arrays.\<close>

definition map_items :: "('k \<times> nat \<times> 'a list) list \<Rightarrow> 'a list" where
  "map_items m = concat (map (\<lambda>(key, l, items). items) m)"

definition list_ids :: "('k \<times> nat \<times> 'a list) list \<Rightarrow> nat set" where
  "list_ids m = (\<lambda>(key, l, items). l) ` set m"

text \<open>The items that \<^verbatim>\<open>#searchResults\<close> holds.\<close>

definition search_items :: "view \<Rightarrow> string list" where
  "search_items v = map_items (searchResults v)"

text \<open>
  The state that a search keeps up when nothing runs on the view while it is
  suspended: every item of \<^verbatim>\<open>#searchResults\<close> carries the search prefix, and every
  entry with the search prefix that is drawn in a live overlayer is such an item
  and sits in the overlayer that \<^verbatim>\<open>#getOverlayer\<close> finds for the section of its
  address. Searches that overlap do not keep it up.
\<close>

definition tracked :: "env \<Rightarrow> view \<Rightarrow> bool" where
  "tracked e v \<longleftrightarrow>
     (\<forall>item \<in> set (search_items v). startsWith item SEARCH_PREFIX)
     \<and> (\<forall>j < length (contents v). \<forall>k. startsWith k SEARCH_PREFIX \<longrightarrow> ov_at v j k \<noteq> None \<longrightarrow>
            k \<in> set (search_items v)
          \<and> (\<exists>r. resolveNavigation e v (String (replace_first SEARCH_PREFIX [] k)) = Some r
                 \<and> getOverlayer (r_index r) v = Some j))"





text \<open>Views that show the same sections with the same overlayers present.\<close>

definition same_frame :: "view \<Rightarrow> view \<Rightarrow> bool" where
  "same_frame v w \<longleftrightarrow>
     length (contents w) = length (contents v)
     \<and> (\<forall>j < length (contents v).
           c_index (contents w ! j) = c_index (contents v ! j)
         \<and> c_doc (contents w ! j) = c_doc (contents v ! j)
         \<and> (c_overlayer (contents w ! j) = None \<longleftrightarrow> c_overlayer (contents v ! j) = None))"

text \<open>A step that leaves everything but the entries under one key as it was.\<close>

definition touches :: "string \<Rightarrow> view \<Rightarrow> view \<Rightarrow> bool" where
  "touches val v w \<longleftrightarrow>
     same_frame v w
     \<and> searchResults w = searchResults v \<and> tocProgress w = tocProgress v
     \<and> (\<forall>i < length (contents v). \<forall>k. k \<noteq> val \<longrightarrow> ov_at w i k = ov_at v i k)"



section \<open>Example states\<close>

text \<open>A history of three entries with the pointer at the last one.\<close>

definition h3 :: history where
  "h3 = \<lparr>arr = [Number 0, String ''a'', String ''b''], arr_props = (\<lambda>_. Undefined),
         index = 2, dispatched = []\<rparr>"

text \<open>
  A book of three sections without \<^verbatim>\<open>resolveCFI\<close> of its own, in which three
  addresses and one link resolve.
\<close>

definition cfi_section :: "string \<Rightarrow> real option" where
  "cfi_section s =
     (if s = ''epubcfi(/6/2)'' then Some 0
      else if s = ''epubcfi(/6/4)'' then Some 1
      else if s = ''epubcfi(/6/6)'' then Some 2
      else None)"

definition book3 :: env where
  "book3 =
     \<lparr>isCFI = (\<lambda>s. startsWith s ''epubcfi(''),
      book_resolveCFI = None,
      parse_cfi = (\<lambda>t. case cfi_section (to_string t) of
                          None \<Rightarrow> Inl TypeError
                        | Some i \<Rightarrow> Inr \<lparr>r_index = Number i, r_anchor = Some (\<lambda>d. Inr 1)\<rparr>),
      book_resolveHref = (\<lambda>t. if to_string t = ''ch2.xhtml''
                               then Inr (Some \<lparr>r_index = Number 1, r_anchor = Some (\<lambda>d. Inr 0)\<rparr>)
                               else Inr None),
      n_sections = 3\<rparr>"

text \<open>The view before \<^verbatim>\<open>open\<close>, and the same view with the history \<open>h3\<close>.\<close>

definition view0 :: view where
  "view0 =
     \<lparr>sectionProgress = None, tocProgress = None, pageProgress = None, searchResults = [],
      lastLocation = None, history = new_history, mediaOverlay = False, contents = [],
      emitted = [], allocated = 0\<rparr>"

definition view3 :: view where
  "view3 = view0\<lparr>history := h3\<rparr>"

text \<open>A renderer that relocates once and then rejects.\<close>

definition rejecting_renderer :: "resolved option \<Rightarrow> nav_outcome" where
  "rejecting_renderer res =
     \<lparr>relocations = [\<lparr>rel_reason = ''page'', rel_cfi = Inr ''epubcfi(/6/4)''\<rparr>],
      failure = Some Rejection\<rparr>"

text \<open>
  A page \<open>300\<close> wide inside a frame \<open>600\<close> wide, and a line of text \<open>100\<close> wide of
  which the last \<open>75\<close> lie beyond the right edge of the page.
\<close>

definition page_rect :: rect where
  "page_rect = \<lparr>rect_left = 0, rect_right = 300, rect_top = 0, rect_bottom = 400,
                 rect_width = 300, rect_height = 400\<rparr>"

definition frame_rect :: rect where
  "frame_rect = \<lparr>rect_left = 0, rect_right = 600, rect_top = 0, rect_bottom = 400,
                  rect_width = 600, rect_height = 400\<rparr>"

definition line_rect :: rect where
  "line_rect = \<lparr>rect_left = 275, rect_right = 375, rect_top = 100, rect_bottom = 120,
                 rect_width = 100, rect_height = 20\<rparr>"

definition paginated :: renderer_geom where
  "paginated = \<lparr>scrolled = False, rendererRect = Some page_rect, dir_attr = None\<rparr>"

definition horizontal :: doc_view where
  "horizontal = \<lparr>frameRect = Some frame_rect, writingMode = ''horizontal-tb''\<rparr>"

definition layout1 :: layout where
  "layout1 = \<lparr>clientRects = (\<lambda>el. [line_rect]), defaultView = (\<lambda>d. Some horizontal),
               renderer_box = paginated\<rparr>"

text \<open>
  The same page in a book read from right to left. The frame reaches \<open>300\<close> to the
  left of the page, where the text goes on; the line, given like every client
  rectangle in the coordinates of the frame, has its first \<open>25\<close> on the page and
  its last \<open>75\<close> beyond the left edge, on the page to come.
\<close>

definition rtl_frame_rect :: rect where
  "rtl_frame_rect = \<lparr>rect_left = - 300, rect_right = 300, rect_top = 0, rect_bottom = 400,
                      rect_width = 600, rect_height = 400\<rparr>"

definition rtl_line_rect :: rect where
  "rtl_line_rect = \<lparr>rect_left = 225, rect_right = 325, rect_top = 100, rect_bottom = 120,
                     rect_width = 100, rect_height = 20\<rparr>"

definition rtl_paginated :: renderer_geom where
  "rtl_paginated = \<lparr>scrolled = False, rendererRect = Some page_rect, dir_attr = Some ''rtl''\<rparr>"

definition rtl_horizontal :: doc_view where
  "rtl_horizontal = \<lparr>frameRect = Some rtl_frame_rect, writingMode = ''horizontal-tb''\<rparr>"

text \<open>The narrated item of the comment in \<^verbatim>\<open>open\<close>, and a quarter of it visible.\<close>

definition item1 :: item where
  "item1 = \<lparr>item_begin = Some 2306.625, item_end = Some 2315.691\<rparr>"

definition quarter_visible :: split_info where
  "quarter_visible = \<lparr>visibleRatio = 0.25, offScreenRatio = 0.75\<rparr>"

text \<open>Two rendered sections, \<open>1\<close> and \<open>2\<close>, and a target in section \<open>2\<close>.\<close>

definition two_contents :: "content list" where
  "two_contents =
     [\<lparr>c_index = Number 1, c_doc = Some 5, c_overlayer = Some Map.empty\<rparr>,
      \<lparr>c_index = Number 2, c_doc = Some 6, c_overlayer = Some Map.empty\<rparr>]"

definition in_section2 :: resolved where
  "in_section2 = \<lparr>r_index = Number 2, r_anchor = Some (\<lambda>d. Inr 1)\<rparr>"

text \<open>A target in section \<open>0\<close>, with section \<open>0\<close> rendered.\<close>

definition section0_contents :: "content list" where
  "section0_contents = [\<lparr>c_index = Number 0, c_doc = Some 4, c_overlayer = Some Map.empty\<rparr>]"

definition in_section0 :: resolved where
  "in_section0 = \<lparr>r_index = Number 0, r_anchor = Some (\<lambda>d. Inr 1)\<rparr>"

text \<open>
  An open view of \<open>book3\<close> with a media overlay, showing section \<open>1\<close>; the item
  \<open>item1\<close> is being narrated and no flip is pending.
\<close>

definition playing :: sync where
  "playing =
     \<lparr>view = view0\<lparr>mediaOverlay := True,
                    contents := [\<lparr>c_index = Number 1, c_doc = Some 5,
                                  c_overlayer = Some Map.empty\<rparr>]\<rparr>,
      player = \<lparr>audio = Some \<lparr>listeners = [], currentTime = 2306.7\<rparr>,
                activeItem = Some item1, autoScroll = True\<rparr>,
      pageFlipTimeupdateHandler = None, lastActive = None, active = [],
      atEnd = False, flips = 0, fresh = 0\<rparr>"

text \<open>
  The state after a \<^verbatim>\<open>highlight\<close> event for a link into section \<open>1\<close>, once the
  renderer has gone there.
\<close>

definition armed :: sync where
  "armed =
     snd (afterNavigation layout1
            (resolveNavigation book3 (view playing) (String ''ch2.xhtml'')) playing)"

text \<open>The same, with section \<open>0\<close> rendered instead.\<close>

definition playing0 :: sync where
  "playing0 = playing\<lparr>view := (view playing)\<lparr>contents := section0_contents\<rparr>\<rparr>"

text \<open>
  An open view of \<open>book3\<close> with a table of contents, showing section \<open>1\<close>: one
  annotation of the user and one search hit are drawn there, and the hit is on record.
  The shell draws annotations in style \<open>3\<close>.
\<close>

definition toc3 :: "jsval \<Rightarrow> string option" where
  "toc3 i = (if i = Number 1 then Some ''Chapter 2'' else None)"

definition shell3 :: "string \<Rightarrow> style option" where
  "shell3 val = Some (Custom 3)"

definition searched :: view where
  "searched =
     view0\<lparr>tocProgress := Some toc3,
           searchResults := [(Number 1, 0, [''foliate-search:epubcfi(/6/4)''])],
           allocated := 1,
           contents :=
             [\<lparr>c_index = Number 1, c_doc = Some 5,
               c_overlayer = Some [''epubcfi(/6/4)'' \<mapsto> (Applied 1, Custom 3),
                                   ''foliate-search:epubcfi(/6/4)'' \<mapsto> (Applied 1, Outline)]\<rparr>]\<rparr>"

text \<open>
  Two searches that overlap, on a view of \<open>book3\<close> that shows section \<open>1\<close> with
  nothing drawn. The first, of section \<open>1\<close>, is pulled: it stores its array and waits
  for the document of the section. Meanwhile the second, of section \<open>2\<close>, is pulled:
  it clears the map and stores an array of its own. Then the document is there,
  and the first search goes on with what its iterator gives, a match in section \<open>1\<close>.
\<close>

definition shown1 :: view where
  "shown1 =
     view0\<lparr>tocProgress := Some toc3,
           contents := [\<lparr>c_index = Number 1, c_doc = Some 5, c_overlayer = Some Map.empty\<rparr>]\<rparr>"

definition matcher1 :: matcher where
  "matcher1 = \<lparr>createDocument = (\<lambda>i. True),
               matches = (\<lambda>i. if i = 1 then Inr [''epubcfi(/6/4)''] else Inr [])\<rparr>"

definition first_pending :: "nat \<times> view" where
  "first_pending = search_register (Some 1) (search_begin book3 shell3 shown1)"

definition second_pending :: "nat \<times> view" where
  "second_pending = search_register (Some 2) (search_begin book3 shell3 (snd first_pending))"

definition overlapped :: view where
  "overlapped =
     snd (snd (search_loop book3 shell3 (fst first_pending)
                 (fst (searchSection matcher1 1)) (snd second_pending)))"


text \<open>The same view with nothing rendered.\<close>

definition unrendered :: view where
  "unrendered = searched\<lparr>contents := []\<rparr>"

section \<open>Properties\<close>

subsection \<open>History\<close>

lemma take_Suc_update: "n < length xs \<Longrightarrow> take (Suc n) (xs[n := x]) = take n xs @ [x]"
  by (simp add: take_Suc_conv_app_nth)

text \<open>What a push does to a history whose pointer is in range.\<close>

lemma push_entry_arr:
  assumes "- 1 \<le> index h" "index h < int (length (arr h))"
  shows "push_entry x h =
    (None, h\<lparr>arr := take (nat (index h + 1)) (arr h) @ [x], index := index h + 1,
             dispatched := dispatched h @ [IndexChange]\<rparr>)"
proof -
  obtain n where n: "index h + 1 = int n"
    using assms(1) by (metis add.commute diff_ge_0_iff_ge diff_minus_eq_add nonneg_int_cases)
  have le: "n \<le> length (arr h)" using assms(2) n by linarith
  have nn: "nat (int n + 1) = Suc n" by simp
  show ?thesis
  proof (cases "n < length (arr h)")
    case True
    then show ?thesis
      using n by (simp add: push_entry_def arr_write_def set_length_def dispatch_def Let_def
          nn take_Suc_update)
  next
    case False
    with le have "n = length (arr h)" by simp
    then show ?thesis
      using n by (simp add: push_entry_def arr_write_def set_length_def dispatch_def Let_def nn)
  qed
qed

lemma hist_inv_bounds: "hist_inv h \<Longrightarrow> - 1 \<le> index h \<and> index h < int (length (arr h))"
  by (auto simp: hist_inv_def)

lemma pushState_cases:
  "pushState x h = (None, h) \<or> pushState x h = (Some TypeError, h)
     \<or> pushState x h = push_entry x h"
  by (cases x) (auto simp: pushState_def Let_def split: sum.splits)

lemma push_entry_inv:
  assumes "hist_inv h"
  shows "hist_inv (snd (push_entry x h))"
    and "index (snd (push_entry x h)) = int (length (arr (snd (push_entry x h)))) - 1"
    and "arr (snd (push_entry x h)) = take (nat (index h + 1)) (arr h) @ [x]"
    and "snd (push_entry x h) \<noteq> h"
proof -
  note b = hist_inv_bounds[OF assms]
  have e: "push_entry x h =
    (None, h\<lparr>arr := take (nat (index h + 1)) (arr h) @ [x], index := index h + 1,
             dispatched := dispatched h @ [IndexChange]\<rparr>)"
    using push_entry_arr b by blast
  have nn: "0 \<le> index h + 1" using b by linarith
  have l: "int (length (take (nat (index h + 1)) (arr h) @ [x])) = index h + 2"
    using b by (simp add: min_def) linarith
  show "hist_inv (snd (push_entry x h))"
    unfolding e hist_inv_def using nn l by simp
  show "index (snd (push_entry x h)) = int (length (arr (snd (push_entry x h)))) - 1"
    unfolding e using l by simp
  show "arr (snd (push_entry x h)) = take (nat (index h + 1)) (arr h) @ [x]" by (simp add: e)
  show "snd (push_entry x h) \<noteq> h"
  proof
    assume "snd (push_entry x h) = h"
    then have "index (snd (push_entry x h)) = index h" by simp
    then show False by (simp add: e)
  qed
qed

lemma replaceState_inv: "hist_inv h \<Longrightarrow> hist_inv (replaceState x h)"
  by (auto simp: hist_inv_def replaceState_def arr_write_def)

lemma replaceState_shape:
  "hist_inv h \<Longrightarrow>
     length (arr (replaceState x h)) = length (arr h) \<and> index (replaceState x h) = index h"
  by (auto simp: hist_inv_def replaceState_def arr_write_def)

lemma back_inv: "hist_inv h \<Longrightarrow> hist_inv (hist_back h)"
  by (auto simp: hist_inv_def hist_back_def dispatch_def Let_def)

lemma forward_inv: "hist_inv h \<Longrightarrow> hist_inv (forward h)"
  by (auto simp: hist_inv_def forward_def dispatch_def Let_def)

lemma clear_inv: "hist_inv (clear h)"
  by (simp add: hist_inv_def clear_def)

lemma back_arr: "arr (hist_back h) = arr h"
  by (simp add: hist_back_def dispatch_def Let_def)

lemma pushState_inv:
  assumes "hist_inv h"
  shows "hist_inv (snd (pushState x h))"
    and "snd (pushState x h) \<noteq> h \<Longrightarrow>
           index (snd (pushState x h)) = int (length (arr (snd (pushState x h)))) - 1
         \<and> arr (snd (pushState x h)) = take (nat (index h + 1)) (arr h) @ [x]"
  using pushState_cases[of x h] push_entry_inv[OF assms, of x] assms by auto

lemma new_history_inv: "hist_inv new_history"
  by (simp add: hist_inv_def new_history_def)

text \<open>
  C7: every operation of the history keeps the pointer at \<open>-1\<close> on an empty array or
  at an index of the array. A push that is not coalesced, which is one that changes
  the history, leaves the pointer at the last index: the array is then the entries
  up to the old pointer followed by the new entry, so nothing beyond the pointer
  is left. The same holds for a push that follows \<^verbatim>\<open>back()\<close>.
\<close>

theorem history_pointer_invariant:
  assumes "hist_inv h"
  shows "hist_inv (snd (pushState x h)) \<and> hist_inv (replaceState x h)
       \<and> hist_inv (hist_back h) \<and> hist_inv (forward h) \<and> hist_inv (clear h)
       \<and> (snd (pushState x h) \<noteq> h \<longrightarrow>
            index (snd (pushState x h)) = int (length (arr (snd (pushState x h)))) - 1
          \<and> arr (snd (pushState x h)) = take (nat (index h + 1)) (arr h) @ [x])
       \<and> (snd (pushState x (hist_back h)) \<noteq> hist_back h \<longrightarrow>
            index (snd (pushState x (hist_back h)))
              = int (length (arr (snd (pushState x (hist_back h))))) - 1
          \<and> arr (snd (pushState x (hist_back h)))
              = take (nat (index (hist_back h) + 1)) (arr h) @ [x])"
  using pushState_inv[OF assms, of x] pushState_inv[OF back_inv[OF assms], of x]
    replaceState_inv[OF assms] back_inv[OF assms] forward_inv[OF assms] clear_inv
  by (simp add: back_arr)

theorem history_pointer_invariant_witness:
  "hist_inv h3
   \<and> snd (pushState (String ''c'') (hist_back h3)) \<noteq> hist_back h3
   \<and> index (snd (pushState (String ''c'') (hist_back h3))) = 2
   \<and> arr (snd (pushState (String ''c'') (hist_back h3))) = [Number 0, String ''a'', String ''c'']"
proof -
  have i: "hist_inv h3" by (simp add: hist_inv_def h3_def)
  have n: "snd (pushState (String ''c'') (hist_back h3)) \<noteq> hist_back h3"
    by (simp add: h3_def pushState_def hist_back_def dispatch_def arr_read_def push_entry_def
        arr_write_def set_length_def opt_fraction_def Let_def)
  have b: "arr h3 = [Number 0, String ''a'', String ''b'']" "index (hist_back h3) = 1"
    by (simp_all add: h3_def hist_back_def dispatch_def Let_def)
  show ?thesis
    using history_pointer_invariant[OF i, of "String ''c''"] i n b by simp
qed

text \<open>
  A push is coalesced when the entry at the pointer is the value pushed, or when
  both are objects with the same fraction and that fraction is not \<open>0\<close>.
\<close>

lemma pushState_coalesces:
  "strict_eq (arr_read h (index h)) x \<Longrightarrow> pushState x h = (None, h)"
  "arr_read h (index h) = Object i a (Some f) \<Longrightarrow> f \<noteq> 0 \<Longrightarrow>
     pushState (Object j b (Some f)) h = (None, h)"
  by (simp_all add: pushState_def opt_fraction_def of_field_def Let_def)

text \<open>
  C5: pushing two objects \<^verbatim>\<open>{ fraction: 0 }\<close>, one after the other, on a new
  history. The fractions are equal, yet the second push is not coalesced:
  \<^verbatim>\<open>last?.fraction\<close> is \<open>0\<close>, which is falsy, so the fractions are never compared.
  The history ends with two entries and the pointer at \<open>1\<close>.
\<close>

theorem pushState_zero_fraction_twice:
  "length (arr (snd (pushState (Object 1 None (Some 0)) new_history))) = 1
   \<and> index (snd (pushState (Object 1 None (Some 0)) new_history)) = 0
   \<and> length (arr (snd (pushState (Object 2 None (Some 0))
        (snd (pushState (Object 1 None (Some 0)) new_history))))) = 2
   \<and> index (snd (pushState (Object 2 None (Some 0))
        (snd (pushState (Object 1 None (Some 0)) new_history)))) = 1"
  by (simp add: pushState_def new_history_def arr_read_def push_entry_def arr_write_def
      set_length_def dispatch_def opt_fraction_def of_field_def Let_def)

subsection \<open>Resolving and going to a target\<close>

text \<open>
  C4, as the code has it: a number resolves to itself with no anchor, whatever the
  number and whatever the book; \<^verbatim>\<open>resolveNavigation\<close> does not look at the
  sections, and nothing is raised.
\<close>

theorem resolveNavigation_number:
  "resolveNavigation e v (Number n) = Some \<lparr>r_index = Number n, r_anchor = None\<rparr>"
  by (simp add: resolveNavigation_def resolveNavigation_try_def)

text \<open>
  In a book of three sections \<open>7\<close> is not a section index, and it is resolved all
  the same.
\<close>

theorem resolveNavigation_invalid_index:
  "\<not> valid_index book3 7
   \<and> resolveNavigation book3 view0 (Number 7) = Some \<lparr>r_index = Number 7, r_anchor = None\<rparr>"
  by (simp add: valid_index_def book3_def resolveNavigation_def resolveNavigation_try_def)

text \<open>A relocation may replace the entry at the pointer; it moves nothing.\<close>

lemma onRelocate_shape:
  assumes "hist_inv (history v)"
  shows "hist_inv (history (onRelocate d v))
     \<and> length (arr (history (onRelocate d v))) = length (arr (history v))
     \<and> index (history (onRelocate d v)) = index (history v)"
  using assms replaceState_inv[OF assms] replaceState_shape[OF assms]
  by (cases "rel_cfi d") (simp_all add: onRelocate_def Let_def)

lemma fold_onRelocate_shape:
  "hist_inv (history v) \<Longrightarrow>
     hist_inv (history (fold onRelocate ds v))
     \<and> length (arr (history (fold onRelocate ds v))) = length (arr (history v))
     \<and> index (history (fold onRelocate ds v)) = index (history v)"
proof (induction ds arbitrary: v)
  case Nil
  then show ?case by simp
next
  case (Cons d ds)
  from onRelocate_shape[OF Cons.prems, of d] Cons.IH[of "onRelocate d v"]
  show ?case by simp
qed

text \<open>The promise of \<^verbatim>\<open>View.goTo\<close> is never rejected.\<close>

lemma goTo_never_rejects: "\<exists>r. fst (goTo e renderer_goTo target v) = Inr r"
  by (auto simp: goTo_def goTo_try_def Let_def split: option.splits prod.splits sum.splits)

text \<open>When the renderer's promise resolves, the target is pushed.\<close>

lemma goTo_resolved_pushes:
  assumes "failure (renderer_goTo (resolveNavigation e v target)) = None"
  shows "history (snd (goTo e renderer_goTo target v)) =
      snd (pushState target (history (fold onRelocate
        (relocations (renderer_goTo (resolveNavigation e v target))) v)))"
  using assms
  by (auto simp: goTo_def goTo_try_def Let_def split: option.splits prod.splits sum.splits)

text \<open>
  C6: when \<^verbatim>\<open>renderer.goTo\<close> fails, \<^verbatim>\<open>View.goTo\<close> resolves with \<^verbatim>\<open>undefined\<close>, so
  no exception reaches the caller, and the history has the length and the pointer
  it had before: nothing was pushed. Hence a push is seen only when the promise of
  the renderer has resolved.
\<close>

theorem goTo_rejected_keeps_history:
  assumes "hist_inv (history v)"
    and "failure (renderer_goTo (resolveNavigation e v target)) \<noteq> None"
  shows "fst (goTo e renderer_goTo target v) = Inr None
       \<and> length (arr (history (snd (goTo e renderer_goTo target v)))) = length (arr (history v))
       \<and> index (history (snd (goTo e renderer_goTo target v))) = index (history v)"
proof -
  obtain x where x: "failure (renderer_goTo (resolveNavigation e v target)) = Some x"
    using assms(2) by blast
  have g: "goTo e renderer_goTo target v =
      (Inr None, fold onRelocate (relocations (renderer_goTo (resolveNavigation e v target))) v)"
    by (simp add: goTo_def goTo_try_def Let_def x)
  show ?thesis
    using fold_onRelocate_shape[OF assms(1)] by (simp add: g)
qed

theorem goTo_rejected_keeps_history_witness:
  "hist_inv (history view3)
   \<and> failure (rejecting_renderer (resolveNavigation book3 view3 (String ''ch2.xhtml''))) \<noteq> None
   \<and> fst (goTo book3 rejecting_renderer (String ''ch2.xhtml'') view3) = Inr None
   \<and> length (arr (history (snd (goTo book3 rejecting_renderer (String ''ch2.xhtml'') view3)))) = 3
   \<and> index (history (snd (goTo book3 rejecting_renderer (String ''ch2.xhtml'') view3))) = 2"
proof -
  have i: "hist_inv (history view3)" by (simp add: view3_def hist_inv_def h3_def)
  have f: "failure (rejecting_renderer (resolveNavigation book3 view3 (String ''ch2.xhtml'')))
             \<noteq> None"
    by (simp add: rejecting_renderer_def)
  have b: "length (arr (history view3)) = 3" "index (history view3) = 2"
    by (simp_all add: view3_def h3_def)
  show ?thesis
    using goTo_rejected_keeps_history[where v = view3 and e = book3
        and renderer_goTo = rejecting_renderer and target = "String ''ch2.xhtml''", OF i f] i f b
    by simp
qed

subsection \<open>Rounded arithmetic\<close>

lemma round_even_int: "round_even (of_int n) = n"
  by (simp add: round_even_def)

lemma ulp_exp_eq:
  assumes "2 powr of_int e \<le> \<bar>x\<bar>" and "\<bar>x\<bar> < 2 powr of_int (e + 1)"
  shows "ulp_exp x = max (e - 52) (- 1074)"
proof -
  have "0 < \<bar>x\<bar>" using assms(1) powr_gt_zero[of 2 "of_int e"] by linarith
  then have "\<lfloor>log 2 \<bar>x\<bar>\<rfloor> = e"
    using floor_log_eq_powr_iff[of "\<bar>x\<bar>" 2 e] assms by simp
  then show ?thesis by (simp add: ulp_exp_def)
qed

text \<open>A number with at most \<open>53\<close> significant bits is its own rounding.\<close>

lemma fl_dyadic:
  assumes "\<bar>n\<bar> < 2 ^ 53" and "k \<le> 1074"
  shows "fl (of_int n / 2 ^ k) = of_int n / 2 ^ k"
proof (cases "n = 0")
  case True
  then show ?thesis by (simp add: fl_def)
next
  case False
  let ?x = "of_int n / 2 ^ k :: real"
  have x0: "?x \<noteq> 0" using False by simp
  have ax: "\<bar>?x\<bar> = of_int \<bar>n\<bar> / 2 ^ k" by (simp add: abs_divide)
  have pos: "0 < \<bar>?x\<bar>" using x0 by simp
  have "of_int \<bar>n\<bar> < (2::real) ^ 53" using assms(1) by (metis of_int_less_numeral_power_cancel_iff)
  then have "\<bar>?x\<bar> < 2 ^ 53 / 2 ^ k" unfolding ax by (simp add: divide_strict_right_mono)
  also have "\<dots> = 2 powr (53 - real k)"
    by (simp add: powr_diff powr_realpow)
  finally have "log 2 \<bar>?x\<bar> < 53 - real k"
    using pos by (simp add: log_less_iff)
  then have "\<lfloor>log 2 \<bar>?x\<bar>\<rfloor> < 53 - int k" by (simp add: floor_less_iff)
  then have t: "ulp_exp ?x \<le> - int k" using assms(2) by (simp add: ulp_exp_def)
  define m where "m = nat (- int k - ulp_exp ?x)"
  have me: "ulp_exp ?x = - int k - int m" using t by (simp add: m_def)
  have "real_of_int (- int k - int m) = - real (k + m)" by simp
  then have p: "(2::real) powr of_int (ulp_exp ?x) = 1 / (2 ^ k * 2 ^ m)"
    unfolding me by (simp only: powr_minus powr_realpow power_add) (simp add: field_simps)
  have q: "?x / 2 powr of_int (ulp_exp ?x) = of_int (n * 2 ^ m)"
    unfolding p by simp
  show ?thesis
    unfolding fl_def using x0
    by (simp only: q round_even_int if_False) (simp add: p)
qed

lemma fl_of_int: "\<bar>n\<bar> < 2 ^ 53 \<Longrightarrow> fl (of_int n) = of_int n"
  using fl_dyadic[of n 0] by simp

lemma fl_zero: "fl 0 = 0"
  by (simp add: fl_def)

lemma fl_numeral: "numeral n < (2::int) ^ 53 \<Longrightarrow> fl (numeral n) = numeral n"
  using fl_of_int[of "numeral n"] by simp

lemma fl_neg_numeral: "numeral n < (2::int) ^ 53 \<Longrightarrow> fl (- numeral n) = - numeral n"
  using fl_of_int[of "- numeral n"] by simp

lemma fl_quarters: "fl (1 / 4) = 1 / 4" "fl (3 / 4) = 3 / 4"
  using fl_dyadic[of 1 2] fl_dyadic[of 3 2] by simp_all

text \<open>The rounding of a number whose binary exponent is known.\<close>

lemma fl_eval:
  assumes "2 powr of_int e \<le> \<bar>x\<bar>" and "\<bar>x\<bar> < 2 powr of_int (e + 1)"
    and "t = max (e - 52) (- 1074)"
  shows "fl x = of_int (round_even (x / 2 powr of_int t)) * 2 powr of_int t"
proof -
  have "x \<noteq> 0" using assms(1) powr_gt_zero[of 2 "of_int e"] by auto
  then show ?thesis using ulp_exp_eq[OF assms(1,2)] assms(3) by (simp add: fl_def)
qed

text \<open>The two thresholds, \<^verbatim>\<open>0.1\<close> and \<^verbatim>\<open>0.98\<close>, as the doubles they are.\<close>

lemma fl_tenth: "fl (1 / 10) = 3602879701896397 / 2 ^ 55"
proof -
  have "fl (1 / 10) = of_int (round_even ((1 / 10) / 2 powr of_int (- 56))) * 2 powr of_int (- 56)"
    by (rule fl_eval[where e = "- 4"]) (simp_all add: powr_minus powr_realpow field_simps)
  then show ?thesis
    by (simp add: powr_minus powr_realpow round_even_def Let_def)
qed

lemma fl_098: "fl (98 / 100) = 8827055269646172 / 2 ^ 53"
proof -
  have "fl (98 / 100) = of_int (round_even ((98 / 100) / 2 powr of_int (- 53))) * 2 powr of_int (- 53)"
    by (rule fl_eval[where e = "- 1"]) (simp_all add: powr_minus powr_realpow field_simps)
  then show ?thesis
    by (simp add: powr_minus powr_realpow round_even_def Let_def)
qed

text \<open>The facts that evaluate the arithmetic of the examples.\<close>

lemmas js_arith = js_add_def js_sub_def js_mul_def js_div_def fl_zero fl_numeral fl_neg_numeral
  fl_quarters

text \<open>Where the thresholds lie among the ratios of the examples.\<close>

lemma thresholds: "fl 0.98 > 3 / 4" "fl 0.98 > 1 / 4" "fl 0.1 < 3 / 4" "fl 0.1 > 0" "fl 0.1 < 1 / 4"
  using fl_tenth fl_098 by simp_all

subsection \<open>Split detection\<close>

text \<open>
  Left to right: of the line \<open>75\<close> of \<open>100\<close> are hidden beyond the right edge of the
  page, in the direction of reading. A split is detected, a quarter being visible.
\<close>

lemma line_rect_areas:
  "measure_areas False frame_rect (viewportRect page_rect frame_rect) [line_rect]
     = \<lparr>totalArea = 2000, visibleArea = 500, forwardArea = 1500, backwardArea = 0\<rparr>"
  by (simp add: measure_areas_def add_rect_def viewportRect_def page_rect_def frame_rect_def
      line_rect_def overlapWidth_def overlapHeight_def verticalOverlap_def
      forwardHiddenWidth_def backwardHiddenWidth_def globalLeft_def globalRight_def
      globalTop_def globalBottom_def Let_def js_arith)

lemma line_rect_split:
  "getElementSplitInfo (Some [line_rect]) (Some horizontal) (Some paginated)
     = Some \<lparr>visibleRatio = 0.25, offScreenRatio = 0.75\<rparr>"
proof -
  have f: "filter (\<lambda>r. rect_width r > 0 \<and> rect_height r > 0) [line_rect] = [line_rect]"
    by (simp add: line_rect_def)
  have v: "viewportRect page_rect frame_rect
             = \<lparr>vp_left = 0, vp_right = 300, vp_top = 0, vp_bottom = 400\<rparr>"
    by (simp add: viewportRect_def page_rect_def frame_rect_def)
  have w: "rect_width page_rect = 300" "rect_height page_rect = 400"
    by (simp_all add: page_rect_def)
  show ?thesis
    using line_rect_areas thresholds
    by (simp add: getElementSplitInfo_def f paginated_def horizontal_def startsWith_def
        split_decision_def Let_def v w js_arith del: filter.simps)
qed

text \<open>
  The direction is read twice, once for the hidden widths and once for the ratios,
  and the two cancel: with \<^verbatim>\<open>dir="rtl"\<close> the progression ratio measures what is
  hidden beyond the right edge, as it does without, and the decision is the same.
\<close>

lemma hidden_width_swap:
  "forwardHiddenWidth True fr vp r = backwardHiddenWidth False fr vp r"
  "backwardHiddenWidth True fr vp r = forwardHiddenWidth False fr vp r"
  by (simp_all add: forwardHiddenWidth_def backwardHiddenWidth_def)

lemma add_rect_swap:
  assumes "totalArea a = totalArea b" "visibleArea a = visibleArea b"
    "backwardArea a = forwardArea b" "forwardArea a = backwardArea b"
  shows "totalArea (add_rect True fr vp r a) = totalArea (add_rect False fr vp r b)
       \<and> visibleArea (add_rect True fr vp r a) = visibleArea (add_rect False fr vp r b)
       \<and> backwardArea (add_rect True fr vp r a) = forwardArea (add_rect False fr vp r b)
       \<and> forwardArea (add_rect True fr vp r a) = backwardArea (add_rect False fr vp r b)"
  using assms by (simp add: add_rect_def Let_def hidden_width_swap)

lemma fold_add_rect_swap:
  assumes "totalArea a = totalArea b" "visibleArea a = visibleArea b"
    "backwardArea a = forwardArea b" "forwardArea a = backwardArea b"
  shows "totalArea (fold (add_rect True fr vp) rs a)
           = totalArea (fold (add_rect False fr vp) rs b)
       \<and> visibleArea (fold (add_rect True fr vp) rs a)
           = visibleArea (fold (add_rect False fr vp) rs b)
       \<and> backwardArea (fold (add_rect True fr vp) rs a)
           = forwardArea (fold (add_rect False fr vp) rs b)
       \<and> forwardArea (fold (add_rect True fr vp) rs a)
           = backwardArea (fold (add_rect False fr vp) rs b)"
  using assms
proof (induction rs arbitrary: a b)
  case Nil
  then show ?case by simp
next
  case (Cons r rs)
  from add_rect_swap[OF Cons.prems, of fr vp r]
  show ?case using Cons.IH[of "add_rect True fr vp r a" "add_rect False fr vp r b"] by simp
qed

lemma split_decision_ignores_direction:
  "split_decision True (measure_areas True fr vp rs)
     = split_decision False (measure_areas False fr vp rs)"
  using fold_add_rect_swap[of
      "\<lparr>totalArea = 0, visibleArea = 0, forwardArea = 0, backwardArea = 0\<rparr>"
      "\<lparr>totalArea = 0, visibleArea = 0, forwardArea = 0, backwardArea = 0\<rparr>" fr vp rs]
  by (simp add: split_decision_def measure_areas_def Let_def)

text \<open>
  So a line hidden beyond the right edge is taken for split in a book read from
  right to left as well, where the right edge is the one the reader has come from.
\<close>

lemma rtl_backward_hidden_split:
  "getElementSplitInfo (Some [line_rect]) (Some horizontal)
     (Some (paginated\<lparr>dir_attr := Some ''rtl''\<rparr>))
     = Some \<lparr>visibleRatio = 0.25, offScreenRatio = 0.75\<rparr>"
proof -
  have f: "filter (\<lambda>r. rect_width r > 0 \<and> rect_height r > 0) [line_rect] = [line_rect]"
    by (simp add: line_rect_def)
  have v: "viewportRect page_rect frame_rect
             = \<lparr>vp_left = 0, vp_right = 300, vp_top = 0, vp_bottom = 400\<rparr>"
    by (simp add: viewportRect_def page_rect_def frame_rect_def)
  have w: "rect_width page_rect = 300" "rect_height page_rect = 400"
    by (simp_all add: page_rect_def)
  have "getElementSplitInfo (Some [line_rect]) (Some horizontal)
          (Some (paginated\<lparr>dir_attr := Some ''rtl''\<rparr>))
        = split_decision True
            (measure_areas True frame_rect (viewportRect page_rect frame_rect) [line_rect])"
    by (simp add: getElementSplitInfo_def f paginated_def horizontal_def startsWith_def
        Let_def v w del: filter.simps)
  also have "\<dots> = split_decision False
            (measure_areas False frame_rect (viewportRect page_rect frame_rect) [line_rect])"
    by (rule split_decision_ignores_direction)
  also have "\<dots> = Some \<lparr>visibleRatio = 0.25, offScreenRatio = 0.75\<rparr>"
    using thresholds by (simp add: line_rect_areas split_decision_def Let_def js_arith)
  finally show ?thesis .
qed

text \<open>
  Right to left: of the line \<open>75\<close> of \<open>100\<close> are hidden beyond the left edge of the
  page, in the direction of reading. The loop measures them as forward area.
\<close>

lemma rtl_line_rect_areas:
  "measure_areas True rtl_frame_rect (viewportRect page_rect rtl_frame_rect) [rtl_line_rect]
     = \<lparr>totalArea = 2000, visibleArea = 500, forwardArea = 1500, backwardArea = 0\<rparr>"
  by (simp add: measure_areas_def add_rect_def viewportRect_def page_rect_def rtl_frame_rect_def
      rtl_line_rect_def overlapWidth_def overlapHeight_def verticalOverlap_def
      forwardHiddenWidth_def backwardHiddenWidth_def globalLeft_def globalRight_def
      globalTop_def globalBottom_def Let_def js_arith)

text \<open>
  C1: split detection in a book read from right to left (\<^verbatim>\<open>dir="rtl"\<close>), in
  paginated mode with horizontal writing, for a line of which a quarter is on the
  page and three quarters are hidden in the forward direction, beyond the left
  edge. The total area is \<open>2000\<close>, the visible area \<open>500\<close> and the forward hidden
  area \<open>1500\<close>: the visible ratio \<open>0.25\<close> is below \<open>0.98\<close>, and the forward hidden
  ratio \<open>0.75\<close> is at least \<open>0.1\<close> and above the backward hidden ratio \<open>0\<close>. Yet no
  split is detected, where \<open>{visibleRatio = 0.25, offScreenRatio = 0.75}\<close> is due:
  the hidden widths are already swapped under \<^verbatim>\<open>rtl\<close> in the loop, and the ratios
  are swapped once more, so the progression ratio is the backward one.
\<close>

theorem split_detection_rtl_forward_hidden:
  "measure_areas True rtl_frame_rect (viewportRect page_rect rtl_frame_rect) [rtl_line_rect]
     = \<lparr>totalArea = 2000, visibleArea = 500, forwardArea = 1500, backwardArea = 0\<rparr>
   \<and> getElementSplitInfo (Some [rtl_line_rect]) (Some rtl_horizontal) (Some rtl_paginated) = None"
proof -
  have f: "filter (\<lambda>r. rect_width r > 0 \<and> rect_height r > 0) [rtl_line_rect] = [rtl_line_rect]"
    by (simp add: rtl_line_rect_def)
  have v: "viewportRect page_rect rtl_frame_rect
             = \<lparr>vp_left = 0, vp_right = 300, vp_top = 0, vp_bottom = 400\<rparr>"
    by (simp add: viewportRect_def page_rect_def rtl_frame_rect_def)
  have w: "rect_width page_rect = 300" "rect_height page_rect = 400"
    by (simp_all add: page_rect_def)
  have "getElementSplitInfo (Some [rtl_line_rect]) (Some rtl_horizontal) (Some rtl_paginated)
          = None"
    using rtl_line_rect_areas thresholds
    by (simp add: getElementSplitInfo_def f rtl_paginated_def rtl_horizontal_def startsWith_def
        split_decision_def Let_def v w js_arith del: filter.simps)
  with rtl_line_rect_areas show ?thesis by simp
qed

subsection \<open>Flip time\<close>

text \<open>
  For the item from \<open>2306.625\<close> to \<open>2315.691\<close> and a visible ratio of \<open>0.25\<close> the flip
  time is \<open>2307.8915\<close>; \<open>2308.89\<close> is the value before the early offset is taken off.
\<close>

theorem flipTime_example_is_not_2308_89:
  "flipTime item1 quarter_visible = 2307.8915 \<and> flipTime item1 quarter_visible \<noteq> 2308.89"
  by (simp add: flipTime_def duration_def earlyOffset_def item1_def quarter_visible_def)

text \<open>
  C2, as the code has it: the flip time is \<open>max begin (begin + (end - begin) *
  visibleRatio - 1.0)\<close>, which is never before \<open>begin\<close>, and for the item above it is
  \<open>2307.8915\<close>.
\<close>

theorem flipTime_formula:
  "flipTime \<lparr>item_begin = Some b, item_end = Some e\<rparr> si
      = max b (b + (e - b) * visibleRatio si - 1.0)
   \<and> b \<le> flipTime \<lparr>item_begin = Some b, item_end = Some e\<rparr> si
   \<and> flipTime \<lparr>item_begin = Some 2306.625, item_end = Some 2315.691\<rparr>
        \<lparr>visibleRatio = 0.25, offScreenRatio = r\<rparr> = 2307.8915"
  by (simp add: flipTime_def duration_def earlyOffset_def)

subsection \<open>The lookup of the highlight handler\<close>

text \<open>
  When the list is not empty and the resolved index is truthy, the lookup selects
  the first entry, whichever entry has the resolved index.
\<close>

lemma find_assigning_truthy:
  assumes "xs \<noteq> []" and "truthy (r_index r)"
  shows "find_assigning (Some r) xs = Inr 0"
  using assms by (cases xs) (simp_all add: find_assigning_def)

lemma find_assigning_section2:
  "find_assigning (Some in_section2) two_contents = Inr 0
   \<and> c_index (two_contents ! 0) = Number 1 \<and> c_index (two_contents ! 1) = r_index in_section2"
proof -
  have a: "two_contents \<noteq> []" by (simp add: two_contents_def)
  have b: "truthy (r_index in_section2)" by (simp add: in_section2_def)
  show ?thesis
    using find_assigning_truthy[OF a b] by (simp add: two_contents_def in_section2_def)
qed

lemma find_pos_never: "find_pos (\<lambda>x. False) xs = None"
  by (induction xs) simp_all

text \<open>With a falsy index, such as \<open>0\<close>, the lookup selects nothing.\<close>

lemma find_assigning_falsy:
  "\<not> truthy (r_index r) \<Longrightarrow> find_assigning (Some r) xs = Inl TypeError"
  by (simp add: find_assigning_def find_pos_never)

text \<open>
  The branch for \<^verbatim>\<open>autoScroll === false\<close> compares with \<^verbatim>\<open>===\<close>: for a target in
  section \<open>0\<close>, with section \<open>0\<close> rendered, it finds the entry and highlights the
  element.
\<close>

lemma highlight_in_place_index_zero:
  "highlight_in_place (Some in_section0) playing0
     = playing0\<lparr>active := [1], lastActive := Some 1\<rparr>"
  by (simp add: highlight_in_place_def playing0_def playing_def view0_def section0_contents_def
      in_section0_def call_anchor_def)

text \<open>
  C10: the lookup \<^verbatim>\<open>getContents().find(x => x.index = resolved.index)\<close> of the
  highlight handler, for a target in section \<open>0\<close> when section \<open>0\<close> is the only entry
  of \<^verbatim>\<open>getContents()\<close>. The first entry is the one with the resolved index, and the
  lookup selects no entry at all: the value of the assignment is \<open>0\<close>, which is
  falsy. The destructuring of the result raises a TypeError, and no element is
  highlighted.
\<close>

theorem find_assigning_index_zero:
  "c_index (section0_contents ! 0) = r_index in_section0
   \<and> find_assigning (Some in_section0) section0_contents = Inl TypeError
   \<and> highlightElement (Some in_section0) playing0 = (Some TypeError, playing0)"
proof -
  have a: "c_index (section0_contents ! 0) = r_index in_section0"
    by (simp add: section0_contents_def in_section0_def)
  have b: "find_assigning (Some in_section0) section0_contents = Inl TypeError"
    by (simp add: section0_contents_def in_section0_def find_assigning_def)
  have c: "contents (view playing0) = section0_contents"
    by (simp add: playing0_def)
  have d: "highlightElement (Some in_section0) playing0 = (Some TypeError, playing0)"
    by (simp add: highlightElement_def c b)
  from a b d show ?thesis by simp
qed

subsection \<open>Closing with a flip pending\<close>

lemma playing_resolved:
  "resolveNavigation book3 (view playing) (String ''ch2.xhtml'')
     = Some \<lparr>r_index = Number 1, r_anchor = Some (\<lambda>d. Inr 0)\<rparr>"
  by (simp add: resolveNavigation_def resolveNavigation_try_def book3_def startsWith_def)

lemma playing_highlighted:
  "highlightElement (Some \<lparr>r_index = Number 1, r_anchor = Some (\<lambda>d. Inr 0)\<rparr>) playing
     = (None, playing\<lparr>active := [0], lastActive := Some 0\<rparr>)"
  by (simp add: highlightElement_def find_assigning_def call_anchor_def playing_def view0_def)

text \<open>
  The highlight arms a listener: \<open>0.25\<close> of the line is visible, so the flip is due
  at \<open>2306.625 + 9.066 * 0.25 - 1 = 2307.8915\<close>.
\<close>

lemma armed_eq:
  "armed = playing\<lparr>active := [0], lastActive := Some 0,
      pageFlipTimeupdateHandler := Some \<lparr>h_id = 0, h_flipTime = 2307.8915\<rparr>,
      player := \<lparr>audio = Some \<lparr>listeners = [\<lparr>h_id = 0, h_flipTime = 2307.8915\<rparr>],
                                currentTime = 2306.7\<rparr>,
                  activeItem = Some item1, autoScroll = True\<rparr>,
      fresh := 1\<rparr>"
proof -
  have d: "duration item1 = 9.066" by (simp add: duration_def item1_def)
  have t: "flipTime item1 \<lparr>visibleRatio = 1 / 4, offScreenRatio = 3 / 4\<rparr> = 2307.8915"
    by (simp add: flipTime_def duration_def earlyOffset_def item1_def)
  have p: "view (playing\<lparr>active := [0], lastActive := Some 0\<rparr>) = view playing"
    "player (playing\<lparr>active := [0], lastActive := Some 0\<rparr>) = player playing"
    "atEnd (playing\<lparr>active := [0], lastActive := Some 0\<rparr>) = atEnd playing"
    by simp_all
  have q: "mediaOverlay (view playing)" "activeItem (player playing) = Some item1"
    "audio (player playing) = Some \<lparr>listeners = [], currentTime = 2306.7\<rparr>"
    "\<not> atEnd playing" "autoScroll (player playing)"
    "contents (view playing) = [\<lparr>c_index = Number 1, c_doc = Some 5,
                                  c_overlayer = Some Map.empty\<rparr>]"
    "fresh playing = 0"
    by (simp_all add: playing_def view0_def)
  have l: "clientRects layout1 0 = [line_rect]" "defaultView layout1 5 = Some horizontal"
    "renderer_box layout1 = paginated"
    by (simp_all add: layout1_def)
  have a: "afterNavigation layout1
             (Some \<lparr>r_index = Number 1, r_anchor = Some (\<lambda>d. Inr 0)\<rparr>) playing
           = (None, arm 2307.8915 (playing\<lparr>active := [0], lastActive := Some 0\<rparr>))"
    by (simp add: afterNavigation_def playing_highlighted p q l find_assigning_def
        call_anchor_def line_rect_split d t)
  show ?thesis
    unfolding armed_def playing_resolved a
    by (simp add: arm_def add_listener_def q Let_def)
qed

text \<open>\<^verbatim>\<open>close\<close> touches neither the audio element nor the pending handler.\<close>

lemma close_view_keeps_player:
  "player (close_view s) = player s
   \<and> pageFlipTimeupdateHandler (close_view s) = pageFlipTimeupdateHandler s"
  by (simp add: close_view_def)

text \<open>The other two ways out, a new highlight and an unhighlight, do remove it.\<close>

lemma cleanup_removes_listener:
  assumes "pageFlipTimeupdateHandler s = Some h" and "mediaOverlay (view s)"
    and "audio (player s) = Some au"
  shows "fst (cleanupPageFlipHandler s) = None
       \<and> pageFlipTimeupdateHandler (snd (cleanupPageFlipHandler s)) = None
       \<and> (\<exists>au'. audio (player (snd (cleanupPageFlipHandler s))) = Some au'
                \<and> h \<notin> set (listeners au'))"
  using assms by (simp add: cleanupPageFlipHandler_def remove_listener_def)

text \<open>After \<^verbatim>\<open>close\<close> even they fail, on \<^verbatim>\<open>this.mediaOverlay.audio\<close>.\<close>

lemma unhighlight_after_close_raises:
  "fst (onUnhighlight (close_view armed)) = Some TypeError"
  by (simp add: armed_eq close_view_def close_def onUnhighlight_def cleanupPageFlipHandler_def)

text \<open>
  C3: a highlight has armed the flip listener and the view is closed. The listener
  is still registered on the audio element after \<^verbatim>\<open>close\<close>, and the next
  \<^verbatim>\<open>timeupdate\<close> calls it; it raises a TypeError, since \<^verbatim>\<open>this.mediaOverlay\<close> is
  \<^verbatim>\<open>null\<close> by then.
\<close>

theorem close_keeps_flip_listener:
  "pageFlipTimeupdateHandler armed = Some \<lparr>h_id = 0, h_flipTime = 2307.8915\<rparr>
   \<and> map_option listeners (audio (player armed)) = Some [\<lparr>h_id = 0, h_flipTime = 2307.8915\<rparr>]
   \<and> \<not> mediaOverlay (view (close_view armed))
   \<and> map_option listeners (audio (player (close_view armed)))
       = Some [\<lparr>h_id = 0, h_flipTime = 2307.8915\<rparr>]
   \<and> fst (timeupdate (close_view armed))
       = [(\<lparr>h_id = 0, h_flipTime = 2307.8915\<rparr>, Some TypeError)]"
  by (simp add: armed_eq close_view_def close_def timeupdate_def run_handler_def)

subsection \<open>Clearing and starting a search\<close>

lemma resolveNavigation_String:
  "resolveNavigation e v (String s) = resolveNavigation e w (String s)"
  by (simp add: resolveNavigation_def resolveNavigation_try_def)

lemma startsWith_prefix: "startsWith (p @ s) p"
  by (simp add: startsWith_def)

lemma replace_first_prefix: "startsWith s p \<Longrightarrow> replace_first p r s = r @ drop (length p) s"
  by (cases s) (auto simp: startsWith_def)

lemma strip_prefix: "replace_first SEARCH_PREFIX [] (SEARCH_PREFIX @ cfi) = cfi"
  by (simp add: replace_first_prefix startsWith_prefix)

lemma same_frame_refl: "same_frame v v"
  by (simp add: same_frame_def)

lemma same_frame_trans: "same_frame u v \<Longrightarrow> same_frame v w \<Longrightarrow> same_frame u w"
  by (auto simp: same_frame_def)

lemma find_pos_cong:
  "length ys = length xs \<Longrightarrow> (\<forall>j < length xs. P (ys ! j) = P (xs ! j)) \<Longrightarrow>
     find_pos P ys = find_pos P xs"
proof (induction xs arbitrary: ys)
  case Nil
  then show ?case by simp
next
  case (Cons x xs)
  then obtain y ys' where ys: "ys = y # ys'" by (cases ys) auto
  have h: "P y = P x" using Cons.prems(2) ys by auto
  have t: "\<forall>j < length xs. P (ys' ! j) = P (xs ! j)"
    using Cons.prems(2) ys by auto
  have "find_pos P ys' = find_pos P xs"
    using Cons.IH[of ys'] Cons.prems(1) ys t by simp
  then show ?case using h ys by simp
qed


lemma getOverlayer_same_frame: "same_frame v w \<Longrightarrow> getOverlayer i w = getOverlayer i v"
  unfolding getOverlayer_def
  by (rule find_pos_cong) (auto simp: same_frame_def)


lemma nth_update_any:
  "i < length xs \<Longrightarrow> xs[j := x] ! i = (if i = j then x else xs ! i)"
  by (cases "j < length xs") (auto simp: nth_list_update)

lemma on_overlayer_frame: "same_frame v (on_overlayer j f v)"
  by (auto simp: same_frame_def on_overlayer_def nth_update_any)

lemma on_overlayer_at:
  "i < length (contents v) \<Longrightarrow>
     ov_at (on_overlayer j f v) i k =
       (if i = j then (case c_overlayer (contents v ! j) of None \<Rightarrow> None | Some ov \<Rightarrow> f ov k)
        else ov_at v i k)"
  by (auto simp: ov_at_def on_overlayer_def nth_update_any split: option.splits)

lemma on_overlayer_other:
  "i < length (contents v) \<Longrightarrow> (\<And>ov. f ov k = ov k) \<Longrightarrow> ov_at (on_overlayer j f v) i k = ov_at v i k"
  by (simp add: on_overlayer_at) (simp add: ov_at_def split: option.splits)

lemma on_overlayer_fields:
  "searchResults (on_overlayer j f v) = searchResults v"
  "tocProgress (on_overlayer j f v) = tocProgress v"
  "emitted (on_overlayer j f v) = emitted v"
  by (simp_all add: on_overlayer_def)


lemma touches_refl: "touches val v v"
  by (simp add: touches_def same_frame_refl)

lemma touches_trans: "touches val u v \<Longrightarrow> touches val v w \<Longrightarrow> touches val u w"
  unfolding touches_def using same_frame_trans by (auto simp: same_frame_def)

lemma touches_remove: "touches val v (on_overlayer j (ov_remove val) v)"
  by (simp add: touches_def on_overlayer_frame on_overlayer_fields on_overlayer_other ov_remove_def)

lemma touches_add: "touches val v (on_overlayer j (ov_add val rg st) v)"
  by (simp add: touches_def on_overlayer_frame on_overlayer_fields on_overlayer_other ov_add_def)

lemma touches_emitted: "touches val v (v\<lparr>emitted := x\<rparr>)"
  by (simp add: touches_def same_frame_def ov_at_def)

lemma add_search_hit_touches: "touches val v (snd (add_search_hit e val remove v))"
  by (simp add: add_search_hit_def Let_def touches_refl touches_remove touches_add
      split: option.splits sum.splits)

lemma redraw_touches: "touches val v (snd (redraw shell val remove r j v))"
proof -
  let ?v1 = "on_overlayer j (ov_remove val) v"
  have 1: "touches val v ?v1" by (rule touches_remove)
  have 2: "touches val v (?v1\<lparr>emitted := x\<rparr>)" for x
    using 1 touches_emitted touches_trans by blast
  have 3: "touches val v (on_overlayer j (ov_add val rg st) (?v1\<lparr>emitted := x\<rparr>))" for x rg st
    using 2 touches_add touches_trans by blast
  show ?thesis
    by (simp add: redraw_def Let_def 1 2 3 split: option.splits sum.splits)
qed

lemma labelled_view: "snd (labelled r v) = v"
  by (simp add: labelled_def split: option.splits)

lemma addAnnotation_touches: "touches val v (snd (addAnnotation e shell val remove v))"
proof (cases "startsWith val SEARCH_PREFIX")
  case True
  then show ?thesis by (simp add: addAnnotation_def add_search_hit_touches)
next
  case False
  show ?thesis
  proof (cases "resolveNavigation e v (String val)")
    case None
    then show ?thesis using False by (simp add: addAnnotation_def touches_refl)
  next
    case (Some r)
    show ?thesis
    proof (cases "getOverlayer (r_index r) v")
      case None
      then show ?thesis using False Some
        by (simp add: addAnnotation_def labelled_view touches_refl)
    next
      case (Some j)
      obtain x v3 where d: "redraw shell val remove r j v = (x, v3)" by fastforce
      have "touches val v v3" using redraw_touches[of val v shell remove r j] d by simp
      then show ?thesis using False \<open>resolveNavigation e v (String val) = Some r\<close> Some d
        by (cases x) (simp_all add: addAnnotation_def labelled_view)
    qed
  qed
qed


lemma touches_length: "touches val v w \<Longrightarrow> length (contents w) = length (contents v)"
  by (simp add: touches_def same_frame_def)

lemma touches_frame: "touches val v w \<Longrightarrow> same_frame v w"
  by (simp add: touches_def)

lemma touches_other:
  "touches val v w \<Longrightarrow> i < length (contents v) \<Longrightarrow> k \<noteq> val \<Longrightarrow> ov_at w i k = ov_at v i k"
  by (simp add: touches_def)







lemma same_frame_length: "same_frame v w \<Longrightarrow> length (contents w) = length (contents v)"
  by (simp add: same_frame_def)





lemma map_items_simps:
  "map_items [] = []"
  "map_items ((key, l, xs) # m) = xs @ map_items m"
  "map_items (m @ n) = map_items m @ map_items n"
  by (simp_all add: map_items_def)

lemma list_ids_simps:
  "list_ids [] = {}"
  "list_ids ((key, l, xs) # m) = insert l (list_ids m)"
  "list_ids (m @ n) = list_ids m \<union> list_ids n"
  by (simp_all add: list_ids_def image_Un)








lemma tracked_transfer:
  assumes "same_frame v w"
    and "resolveNavigation e v (String s) = Some r \<and> getOverlayer (r_index r) v = Some j"
  shows "resolveNavigation e w (String s) = Some r \<and> getOverlayer (r_index r) w = Some j"
  using assms getOverlayer_same_frame[OF assms(1)] resolveNavigation_String[of e w s v] by simp













text \<open>A push to an array that the map has dropped does not show in the map.\<close>

lemma push_to_dropped: "l \<notin> list_ids m \<Longrightarrow> push_to l x m = m"
proof (induction m)
  case Nil
  then show ?case by simp
next
  case (Cons p m)
  obtain k l' xs where p: "p = (k, l', xs)" by (cases p)
  show ?case using Cons p by (simp add: list_ids_simps)
qed

















text \<open>
  A view with no search on record and no search entry drawn is tracked, and drawing
  or deleting an annotation without the search prefix keeps a view tracked.
\<close>

lemma tracked_no_hits:
  assumes "searchResults v = []"
    and "\<forall>j < length (contents v). \<forall>k. startsWith k SEARCH_PREFIX \<longrightarrow> ov_at v j k = None"
  shows "tracked e v"
  using assms by (simp add: tracked_def search_items_def map_items_simps)

lemma add_persistent_tracked:
  assumes "tracked e v" and "\<not> startsWith val SEARCH_PREFIX"
  shows "tracked e (snd (addAnnotation e shell val remove v))"
proof -
  let ?w = "snd (addAnnotation e shell val remove v)"
  have t: "touches val v ?w" by (rule addAnnotation_touches)
  have f: "same_frame v ?w" by (rule touches_frame[OF t])
  have items: "search_items ?w = search_items v"
    using t by (simp add: touches_def search_items_def)
  have "k \<in> set (search_items ?w)
        \<and> (\<exists>r. resolveNavigation e ?w (String (replace_first SEARCH_PREFIX [] k)) = Some r
               \<and> getOverlayer (r_index r) ?w = Some j)"
    if j: "j < length (contents ?w)" and k: "startsWith k SEARCH_PREFIX"
      and o: "ov_at ?w j k \<noteq> None" for j k
  proof -
    have jv: "j < length (contents v)" using j touches_length[OF t] by simp
    have "k \<noteq> val" using k assms(2) by auto
    then have "ov_at v j k \<noteq> None" using touches_other[OF t jv] o by simp
    then have "k \<in> set (search_items v)
        \<and> (\<exists>r. resolveNavigation e v (String (replace_first SEARCH_PREFIX [] k)) = Some r
               \<and> getOverlayer (r_index r) v = Some j)"
      using assms(1) jv k unfolding tracked_def by blast
    then show ?thesis using tracked_transfer[OF f] items by metis
  qed
  moreover have "\<forall>item \<in> set (search_items ?w). startsWith item SEARCH_PREFIX"
    using assms(1) items unfolding tracked_def by simp
  ultimately show ?thesis unfolding tracked_def by blast
qed




text \<open>
  Searches that overlap leave a state that is not tracked. The hit of the first
  search is drawn after the second has cleared the map: the array it is pushed to
  is no longer in \<^verbatim>\<open>#searchResults\<close>.
\<close>

lemma shown1_tracked: "tracked book3 shown1"
  by (rule tracked_no_hits) (simp_all add: shown1_def view0_def ov_at_def)

lemma first_pending_eq:
  "first_pending = (0, shown1\<lparr>searchResults := [(Number 1, 0, [])], allocated := 1\<rparr>)"
  by (simp add: first_pending_def search_register_def search_begin_def clearSearch_def shown1_def
      view0_def of_field_def)

lemma second_pending_eq:
  "second_pending = (1, shown1\<lparr>searchResults := [(Number 2, 1, [])], allocated := 2\<rparr>)"
  by (simp add: second_pending_def first_pending_eq search_register_def search_begin_def
      clearSearch_def shown1_def view0_def of_field_def)

lemma overlapped_eq:
  "overlapped =
     shown1\<lparr>searchResults := [(Number 2, 1, [])], allocated := 2,
            contents := [\<lparr>c_index = Number 1, c_doc = Some 5,
                          c_overlayer = Some [''foliate-search:epubcfi(/6/4)''
                                                \<mapsto> (Applied 1, Outline)]\<rparr>]\<rparr>"
  by (simp add: overlapped_def first_pending_eq second_pending_eq searchSection_def matcher1_def
      Let_def SEARCH_PREFIX_def addAnnotation_def add_search_hit_def startsWith_def
      resolveNavigation_def resolveNavigation_try_def resolveCFI_def book3_def cfi_section_def
      getOverlayer_def find_pos.simps shown1_def view0_def on_overlayer_def range_of_def
      ov_add_def)

lemma overlapped_not_tracked: "\<not> tracked book3 overlapped"
proof
  assume "tracked book3 overlapped"
  moreover have "ov_at overlapped 0 ''foliate-search:epubcfi(/6/4)'' \<noteq> None"
    by (simp add: overlapped_eq ov_at_def)
  moreover have "startsWith ''foliate-search:epubcfi(/6/4)'' SEARCH_PREFIX"
    by (simp add: startsWith_def SEARCH_PREFIX_def)
  moreover have "0 < length (contents overlapped)" by (simp add: overlapped_eq)
  ultimately have "''foliate-search:epubcfi(/6/4)'' \<in> set (search_items overlapped)"
    unfolding tracked_def by blast
  then show False by (simp add: overlapped_eq search_items_def map_items_simps)
qed


subsection \<open>Annotations of sections that are not rendered\<close>

text \<open>
  In a view whose \<^verbatim>\<open>#tocProgress\<close> is set: for a value without the search prefix
  whose address resolves to a section with no live overlayer, \<^verbatim>\<open>addAnnotation\<close>
  changes nothing, emits nothing and resolves with the index and the label, the
  empty string when the table of contents has none.
\<close>

lemma addAnnotation_unrendered:
  assumes "\<not> startsWith val SEARCH_PREFIX"
    and "resolveNavigation e v (String val) = Some r"
    and "getOverlayer (r_index r) v = None"
    and "tocProgress v = Some getProgress"
  shows "addAnnotation e shell val remove v =
           (Inr (Some (r_index r, case getProgress (r_index r) of None \<Rightarrow> [] | Some l \<Rightarrow> l)), v)"
  using assms by (simp add: addAnnotation_def labelled_def)

lemma unrendered_resolved:
  "resolveNavigation book3 unrendered (String ''epubcfi(/6/4)'')
     = Some \<lparr>r_index = Number 1, r_anchor = Some (\<lambda>d. Inr 1)\<rparr>"
  by (simp add: resolveNavigation_def resolveNavigation_try_def resolveCFI_def book3_def
      startsWith_def cfi_section_def)

lemma addAnnotation_unrendered_example:
  "addAnnotation book3 shell3 ''epubcfi(/6/4)'' False unrendered
     = (Inr (Some (Number 1, ''Chapter 2'')), unrendered)"
proof -
  have a: "\<not> startsWith ''epubcfi(/6/4)'' SEARCH_PREFIX"
    by (simp add: startsWith_def SEARCH_PREFIX_def)
  have g: "getOverlayer (r_index \<lparr>r_index = Number 1, r_anchor = Some (\<lambda>d. Inr 1)\<rparr>) unrendered
            = None"
    by (simp add: getOverlayer_def unrendered_def)
  have t: "tocProgress unrendered = Some toc3"
    by (simp add: unrendered_def searched_def)
  from addAnnotation_unrendered[OF a unrendered_resolved g t, of shell3 False]
  show ?thesis by (simp add: toc3_def)
qed

text \<open>
  A search hit in a section that is not rendered: nothing is drawn, and the call
  resolves with \<^verbatim>\<open>undefined\<close>, whether \<^verbatim>\<open>#tocProgress\<close> is set or not.
\<close>

lemma addAnnotation_search_hit_unrendered:
  assumes "startsWith val SEARCH_PREFIX"
    and "resolveNavigation e v (String (replace_first SEARCH_PREFIX [] val)) = Some r"
    and "getOverlayer (r_index r) v = None"
  shows "addAnnotation e shell val remove v = (Inr None, v)"
  using assms by (simp add: addAnnotation_def add_search_hit_def)

lemma addAnnotation_search_hit_example:
  "addAnnotation book3 shell3 ''foliate-search:epubcfi(/6/4)'' False unrendered
     = (Inr None, unrendered)"
proof -
  have a: "startsWith ''foliate-search:epubcfi(/6/4)'' SEARCH_PREFIX"
    by (simp add: startsWith_def SEARCH_PREFIX_def)
  have c: "replace_first SEARCH_PREFIX [] ''foliate-search:epubcfi(/6/4)'' = ''epubcfi(/6/4)''"
    by (simp add: SEARCH_PREFIX_def startsWith_def)
  have r: "resolveNavigation book3 unrendered
             (String (replace_first SEARCH_PREFIX [] ''foliate-search:epubcfi(/6/4)''))
           = Some \<lparr>r_index = Number 1, r_anchor = Some (\<lambda>d. Inr 1)\<rparr>"
    unfolding c by (rule unrendered_resolved)
  have g: "getOverlayer (r_index \<lparr>r_index = Number 1, r_anchor = Some (\<lambda>d. Inr 1)\<rparr>) unrendered
            = None"
    by (simp add: getOverlayer_def unrendered_def)
  from addAnnotation_search_hit_unrendered[OF a r g] show ?thesis .
qed

text \<open>
  When \<^verbatim>\<open>#tocProgress\<close> is not set, the call for a value without the search prefix
  is rejected with a TypeError, whatever the book and the value:
  \<^verbatim>\<open>this.#tocProgress.getProgress\<close> has no \<^verbatim>\<open>?.\<close>, which \<^verbatim>\<open>#onRelocate\<close> and
  \<^verbatim>\<open>getProgressOf\<close> have.
\<close>

lemma addAnnotation_without_toc_raises:
  assumes "\<not> startsWith val SEARCH_PREFIX"
    and "resolveNavigation e v (String val) = Some r"
    and "getOverlayer (r_index r) v = None"
    and "tocProgress v = None"
  shows "addAnnotation e shell val remove v = (Inl TypeError, v)"
  using assms by (simp add: addAnnotation_def labelled_def)

text \<open>
  C9: \<^verbatim>\<open>addAnnotation\<close> for an annotation of the user in section \<open>1\<close>, which is not
  rendered, on a book without \<^verbatim>\<open>splitTOCHref\<close> and \<^verbatim>\<open>getTOCFragment\<close>, for which
  \<^verbatim>\<open>open\<close> leaves \<^verbatim>\<open>#tocProgress\<close> unset. The address resolves and the section has no
  live overlayer; nothing is drawn, but the promise is rejected with a TypeError
  where the index and the label \<^verbatim>\<open>''\<close> are due.
\<close>

theorem addAnnotation_without_toc_rejects:
  "\<not> startsWith ''epubcfi(/6/4)'' SEARCH_PREFIX
   \<and> tocProgress view0 = None
   \<and> resolveNavigation book3 view0 (String ''epubcfi(/6/4)'')
       = Some \<lparr>r_index = Number 1, r_anchor = Some (\<lambda>d. Inr 1)\<rparr>
   \<and> getOverlayer (Number 1) view0 = None
   \<and> addAnnotation book3 shell3 ''epubcfi(/6/4)'' False view0 = (Inl TypeError, view0)"
proof -
  have a: "\<not> startsWith ''epubcfi(/6/4)'' SEARCH_PREFIX"
    by (simp add: startsWith_def SEARCH_PREFIX_def)
  have t: "tocProgress view0 = None" by (simp add: view0_def)
  have r: "resolveNavigation book3 view0 (String ''epubcfi(/6/4)'')
             = Some \<lparr>r_index = Number 1, r_anchor = Some (\<lambda>d. Inr 1)\<rparr>"
    by (simp add: resolveNavigation_def resolveNavigation_try_def resolveCFI_def book3_def
        startsWith_def cfi_section_def)
  have g: "getOverlayer (Number 1) view0 = None"
    by (simp add: getOverlayer_def view0_def)
  have "addAnnotation book3 shell3 ''epubcfi(/6/4)'' False view0 = (Inl TypeError, view0)"
    using a t r g by (simp add: addAnnotation_def labelled_def)
  with a t r g show ?thesis by simp
qed

end
